theory Spec2Isabelle
  imports Main "HOL-Library.Sublist" "HOL-Library.While_Combinator"
begin

section \<open>The per-file analysis state machine of \<open>sourceFile.ts\<close>\<close>

text \<open>
  The class \<open>SourceFile\<close> owns one file's pipeline: parse, semantic analysis,
  repeated type analysis passes and finalization. The embedding keeps the object
  state in a record and every method as a function from the state to the new
  state. Conventions:
  \<^item> a private member \<open>_foo\<close> of the class is the field \<open>p_foo\<close> of the record
    (an Isabelle name cannot start with an underscore);
  \<^item> \<open>undefined\<close> and \<open>null\<close> are \<open>None\<close>;
  \<^item> the counters are JavaScript numbers that only ever hold integers; they are
    \<open>int\<close> here (exact below \<open>2^53\<close>, which no run of increments by one reaches);
  \<^item> a failed \<open>assert\<close> is the result \<open>Inl AssertionError\<close>; an exception that
    leaves a method is a result that holds the thrown value and the state the
    object is left in;
  \<^item> \<open>timingStats\<close> only measures time: \<open>timeOperation(f)\<close> is the call of \<open>f\<close>;
  \<^item> the collaborators that live in other files (parser, walkers, import
    resolver, analyzers, file system) are parameters of the methods that call
    them; a collaborator that can throw returns a sum with the thrown value on
    the left.
\<close>

subsection \<open>Strings\<close>

definition startsWith :: "string \<Rightarrow> string \<Rightarrow> bool" where
  "startsWith s searchString = prefix searchString s"

definition endsWith :: "string \<Rightarrow> string \<Rightarrow> bool" where
  "endsWith s searchString = suffix searchString s"

text \<open>\<open>parts.join(sep)\<close> of JavaScript.\<close>

fun join :: "string list \<Rightarrow> string \<Rightarrow> string" where
  "join [] sep = []"
| "join [p] sep = p"
| "join (p # q # ps) sep = p @ sep @ join (q # ps) sep"

subsection \<open>Data model\<close>

text \<open>\<open>const MaxImportCyclesPerFile = 4\<close>\<close>

definition MaxImportCyclesPerFile :: nat where
  "MaxImportCyclesPerFile = 4"

datatype AnalysisPhase = Parse | SemanticAnalysis | TypeAnalysis

text \<open>The numeric values of the enum, which the phase predicates compare.\<close>

fun phaseValue :: "AnalysisPhase \<Rightarrow> nat" where
  "phaseValue Parse = 0"
| "phaseValue SemanticAnalysis = 1"
| "phaseValue TypeAnalysis = 2"

text \<open>
  Modelled from the spec: the declarations of \<open>common/diagnostic\<close>,
  \<open>common/diagnosticSink\<close>, \<open>common/textRange\<close>, \<open>common/configOptions\<close>,
  \<open>parser/parser\<close>, \<open>analyzer/importResult\<close>, \<open>analyzer/postParseWalker\<close> and
  \<open>analyzer/circularDependency\<close> are not part of the file; the types below hold
  the members that \<open>sourceFile.ts\<close> reads and writes. A diagnostic has a
  severity, a message and an optional range; a sink is the ordered list of the
  diagnostics added to it.
\<close>

datatype DiagnosticCategory = Error | Warning

type_synonym DocumentTextRange = "(int \<times> int) \<times> (int \<times> int)"

record Diagnostic =
  category :: DiagnosticCategory
  message :: string
  range_d :: "DocumentTextRange option"

text \<open>\<open>new Diagnostic(category, message, range)\<close>\<close>

definition new_Diagnostic ::
  "DiagnosticCategory \<Rightarrow> string \<Rightarrow> DocumentTextRange option \<Rightarrow> Diagnostic" where
  "new_Diagnostic c m r = \<lparr>category = c, message = m, range_d = r\<rparr>"

text \<open>
  Modelled from the spec: \<open>DiagnosticSink.addError(message)\<close> appends one
  error-severity diagnostic without a range to the sink.
\<close>

definition addError :: "string \<Rightarrow> Diagnostic list \<Rightarrow> Diagnostic list" where
  "addError m diagnostics = diagnostics @ [new_Diagnostic Error m None]"

record TextRange =
  start :: int
  length_r :: int

text \<open>
  The classes \<open>Token\<close>, \<open>Scope\<close> and the values of an \<open>ImportMap\<close> are only
  handed on by \<open>sourceFile.ts\<close>; they stay opaque. The type \<open>'t\<close> is the
  type of parse nodes (the module node of a file and the name nodes of its import
  statements). A \<open>TextRangeCollection\<close> is the list of its items.
\<close>

typedecl Token

typedecl Scope

typedecl ImportInfo

type_synonym ImportMap = "string \<rightharpoonup> ImportInfo"

record 't ParseResults =
  parseTree :: 't
  tokens :: "Token list"
  lines :: "TextRange list"

record ImportResult =
  resolvedPaths :: "string list"

text \<open>
  Modelled from the spec: a circular dependency is the ordered chain of its
  paths, and \<open>isEqual\<close> is structural equality of that chain.
\<close>

record CircularDependency =
  paths :: "string list"

definition getPaths :: "CircularDependency \<Rightarrow> string list" where
  "getPaths d = paths d"

definition isEqual :: "CircularDependency \<Rightarrow> CircularDependency \<Rightarrow> bool" where
  "isEqual d circDependency = (paths d = paths circDependency)"

datatype DiagnosticLevel = LevelNone | LevelWarning | LevelError

record ExecutionEnvironment =
  pythonVersion :: int

record ConfigOptions =
  reportImportCycles :: DiagnosticLevel
  reportTypeshedErrors :: DiagnosticLevel
  ignore :: "string list"
  internalTestMode :: bool
  findExecEnvironment :: "string \<Rightarrow> ExecutionEnvironment"

text \<open>The interface \<open>AnalysisJob\<close>.\<close>

record 't AnalysisJob =
  fileContentsVersion :: int
  nextPhaseToRun :: AnalysisPhase
  parseTreeNeedsCleaning :: bool
  parseResults :: "'t ParseResults option"
  parseDiagnostics :: "Diagnostic list"
  semanticAnalysisDiagnostics :: "Diagnostic list"
  typeAnalysisLastPassDiagnostics :: "Diagnostic list"
  typeAnalysisFinalDiagnostics :: "Diagnostic list"
  circularDependencies :: "CircularDependency list"
  typeAnalysisPassNumber :: int
  isTypeAnalysisPassNeeded :: bool
  isTypeAnalysisFinalized :: bool
  imports_j :: "ImportResult list option"
  builtinsImport :: "ImportResult option"
  typingModulePath :: "string option"

text \<open>
  The members of the class \<open>SourceFile\<close>. \<open>p_console\<close> is the list of the lines
  written to the console so far, oldest first.
\<close>

record 't SourceFile =
  p_console :: "string list"
  p_filePath :: string
  p_isStubFile :: bool
  p_isTypeshedStubFile :: bool
  p_isTypingStubFile :: bool
  p_isBuiltInStubFile :: bool
  p_analysisJob :: "'t AnalysisJob"
  p_diagnosticVersion :: int
  p_fileContentsVersion :: int
  p_clientVersion :: "int option"
  p_fileContents :: "string option"

subsection \<open>Construction\<close>

text \<open>The initializer of \<open>_analysisJob\<close>.\<close>

definition initialAnalysisJob :: "'t AnalysisJob" where
  "initialAnalysisJob =
     \<lparr>fileContentsVersion = - 1,
      nextPhaseToRun = SemanticAnalysis,
      parseTreeNeedsCleaning = False,
      parseResults = None,
      parseDiagnostics = [],
      semanticAnalysisDiagnostics = [],
      typeAnalysisLastPassDiagnostics = [],
      typeAnalysisFinalDiagnostics = [],
      circularDependencies = [],
      typeAnalysisPassNumber = 1,
      isTypeAnalysisPassNeeded = True,
      isTypeAnalysisFinalized = False,
      imports_j = None,
      builtinsImport = None,
      typingModulePath = None\<rparr>"

text \<open>
  The constructor. \<open>getFileName\<close> of \<open>common/pathUtils\<close> is a parameter.
\<close>

definition new_SourceFile ::
  "(string \<Rightarrow> string) \<Rightarrow> string \<Rightarrow> bool \<Rightarrow> 't SourceFile" where
  "new_SourceFile getFileName filePath isTypeshedStubFile =
     (let isStub = endsWith filePath ''.pyi'';
          fileName = getFileName filePath
      in \<lparr>p_console = [],
          p_filePath = filePath,
          p_isStubFile = isStub,
          p_isTypeshedStubFile = isTypeshedStubFile,
          p_isTypingStubFile =
            (isStub \<and> (fileName = ''typing.pyi'' \<or> fileName = ''typing_extensions.pyi'')),
          p_isBuiltInStubFile =
            (if isStub
             then (if endsWith filePath ''/collections/__init__.pyi'' \<or>
                      fileName = ''dataclasses.pyi'' \<or> fileName = ''abc.pyi''
                   then True else False)
             else False),
          p_analysisJob = initialAnalysisJob,
          p_diagnosticVersion = 0,
          p_fileContentsVersion = 0,
          p_clientVersion = None,
          p_fileContents = None\<rparr>)"

subsection \<open>Accessors and phase predicates\<close>

definition getFilePath :: "'t SourceFile \<Rightarrow> string" where
  "getFilePath s = p_filePath s"

definition getDiagnosticVersion :: "'t SourceFile \<Rightarrow> int" where
  "getDiagnosticVersion s = p_diagnosticVersion s"

definition getImports :: "'t SourceFile \<Rightarrow> ImportResult list" where
  "getImports s = (case imports_j (p_analysisJob s) of None \<Rightarrow> [] | Some l \<Rightarrow> l)"

definition getBuiltinsImport :: "'t SourceFile \<Rightarrow> ImportResult option" where
  "getBuiltinsImport s = builtinsImport (p_analysisJob s)"

definition isParseRequired :: "'t SourceFile \<Rightarrow> bool" where
  "isParseRequired s = (fileContentsVersion (p_analysisJob s) \<noteq> p_fileContentsVersion s)"

definition isSemanticAnalysisRequired :: "'t SourceFile \<Rightarrow> bool" where
  "isSemanticAnalysisRequired s =
     (if isParseRequired s then True
      else phaseValue (nextPhaseToRun (p_analysisJob s)) \<le> phaseValue SemanticAnalysis)"

definition isTypeAnalysisRequired :: "'t SourceFile \<Rightarrow> bool" where
  "isTypeAnalysisRequired s =
     (if isSemanticAnalysisRequired s then True
      else if phaseValue (nextPhaseToRun (p_analysisJob s)) < phaseValue TypeAnalysis \<or>
              isTypeAnalysisPassNeeded (p_analysisJob s)
      then True
      else False)"

definition isAnalysisFinalized :: "'t SourceFile \<Rightarrow> bool" where
  "isAnalysisFinalized s =
     (\<not> isTypeAnalysisRequired s \<and> isTypeAnalysisFinalized (p_analysisJob s))"

definition getParseResults :: "'t SourceFile \<Rightarrow> 't ParseResults option" where
  "getParseResults s =
     (if \<not> isParseRequired s then parseResults (p_analysisJob s) else None)"

definition getAnalysisPassCount :: "'t SourceFile \<Rightarrow> int" where
  "getAnalysisPassCount s = typeAnalysisPassNumber (p_analysisJob s)"

subsection \<open>Marking a file for reanalysis\<close>

definition markDirty :: "'t SourceFile \<Rightarrow> 't SourceFile" where
  "markDirty s =
     s\<lparr>p_fileContentsVersion := p_fileContentsVersion s + 1,
       p_analysisJob := (p_analysisJob s)
         \<lparr>isTypeAnalysisFinalized := False,
          nextPhaseToRun := SemanticAnalysis\<rparr>\<rparr>"

definition markReanalysisRequired :: "'t SourceFile \<Rightarrow> 't SourceFile" where
  "markReanalysisRequired s =
     s\<lparr>p_analysisJob := (p_analysisJob s)
         \<lparr>nextPhaseToRun := SemanticAnalysis,
          parseTreeNeedsCleaning := True,
          isTypeAnalysisFinalized := False\<rparr>\<rparr>"

definition setClientVersion ::
  "int option \<Rightarrow> string \<Rightarrow> 't SourceFile \<Rightarrow> 't SourceFile" where
  "setClientVersion version contents s =
     (let s1 = s\<lparr>p_clientVersion := version\<rparr>
      in if version = None then s1\<lparr>p_fileContents := None\<rparr>
         else
           (let s2 = (if p_fileContents s1 \<noteq> None
                      then (if p_fileContents s1 \<noteq> Some contents then markDirty s1 else s1)
                      else s1)
            in s2\<lparr>p_fileContents := Some contents\<rparr>))"

definition setTypeAnalysisPassNeeded :: "'t SourceFile \<Rightarrow> 't SourceFile" where
  "setTypeAnalysisPassNeeded s =
     s\<lparr>p_analysisJob := (p_analysisJob s)
         \<lparr>isTypeAnalysisPassNeeded := True,
          isTypeAnalysisFinalized := False\<rparr>\<rparr>"

text \<open>
  \<open>addCircularDependency\<close>: \<open>some\<close> is \<open>list_ex\<close>, \<open>push\<close> appends at the end.
\<close>

definition addCircularDependency ::
  "CircularDependency \<Rightarrow> 't SourceFile \<Rightarrow> 't SourceFile" where
  "addCircularDependency circDependency s =
     (if length (circularDependencies (p_analysisJob s)) < MaxImportCyclesPerFile
      then (if \<not> list_ex (\<lambda>dep. isEqual dep circDependency)
                    (circularDependencies (p_analysisJob s))
            then s\<lparr>p_analysisJob := (p_analysisJob s)
                    \<lparr>circularDependencies :=
                       circularDependencies (p_analysisJob s) @ [circDependency]\<rparr>\<rparr>
            else s)
      else s)"

subsection \<open>Diagnostics\<close>

definition newline :: string where
  "newline = [CHR 0x0A]"

text \<open>
  A value used as a condition: \<open>undefined\<close> and the empty string are falsy, every
  other string is truthy.
\<close>

fun truthy :: "string option \<Rightarrow> bool" where
  "truthy None = False"
| "truthy (Some str) = (str \<noteq> [])"

text \<open>
  \<open>getDiagnostics\<close>. \<open>prevDiagnosticVersion\<close> is optional. \<open>Array.find\<close> returns the
  first element that satisfies the callback, or \<open>undefined\<close>; the source uses that
  element as the condition of the \<open>if\<close>.
\<close>

definition getDiagnostics ::
  "ConfigOptions \<Rightarrow> int option \<Rightarrow> 't SourceFile \<Rightarrow> Diagnostic list option" where
  "getDiagnostics options prevDiagnosticVersion s =
     (if Some (p_diagnosticVersion s) = prevDiagnosticVersion then None
      else
        (let job = p_analysisJob s;
             diagList1 = [] @ parseDiagnostics job @ semanticAnalysisDiagnostics job @
                         typeAnalysisFinalDiagnostics job;
             diagList2 =
               (if reportImportCycles options \<noteq> LevelNone \<and>
                   length (circularDependencies job) > 0
                then
                  (let cat = (if reportImportCycles options = LevelWarning
                              then Warning else Error)
                   in diagList1 @
                      map (\<lambda>cirDep. new_Diagnostic cat
                             (''Cycle detected in import chain'' @ newline @
                              join (map (\<lambda>path. ''  '' @ path) (getPaths cirDep)) newline)
                             None)
                        (circularDependencies job))
                else diagList1)
         in if p_isTypeshedStubFile s \<and> reportTypeshedErrors options = LevelNone then None
            else
              (let diagList3 =
                     (if p_isTypeshedStubFile s \<and> reportTypeshedErrors options = LevelWarning
                      then map (\<lambda>diag. if category diag = Error
                                        then new_Diagnostic Warning (message diag) (range_d diag)
                                        else diag) diagList2
                      else diagList2)
               in if truthy (find (\<lambda>ignorePath. startsWith (p_filePath s) ignorePath)
                               (ignore options))
                  then Some []
                  else Some diagList3)))"

subsection \<open>Thrown values and the console\<close>

text \<open>
  A thrown value is an \<open>Error\<close> with its message, or a value that is not an
  \<open>Error\<close>. For the latter \<open>JSON.stringify\<close> either gives a text or throws
  itself: a \<open>TypeError\<close> for an object that refers to itself and for a
  \<open>BigInt\<close>, whatever a \<open>toJSON\<close> method throws otherwise.
\<close>

datatype Thrown = ErrorInstance string | OtherValue string | Unserialisable Thrown

text \<open>
  The first statements of the three \<open>catch\<close> blocks: \<open>e.message\<close> for an
  \<open>Error\<close>, \<open>JSON.stringify(e)\<close> otherwise; the value on the left is the one
  \<open>JSON.stringify\<close> throws.
\<close>

fun thrownMessage :: "Thrown \<Rightarrow> Thrown + string" where
  "thrownMessage (ErrorInstance m) = Inr m"
| "thrownMessage (OtherValue j) = Inr j"
| "thrownMessage (Unserialisable t) = Inl t"

text \<open>
  The \<open>TypeError\<close> of reading \<open>parseTree\<close> from \<open>undefined\<close>; the assertions
  before the \<open>try\<close> blocks exclude it.
\<close>

definition typeErrorUndefined :: Thrown where
  "typeErrorUndefined = ErrorInstance ''Cannot read property parseTree of undefined''"

text \<open>
  How a method ends other than by returning: a failed assertion, before the
  method has changed anything, or an exception that leaves the method, with the
  state the object is left in.
\<close>

datatype 't Fatal = AssertionError | Escaped Thrown "'t SourceFile"

definition console_log :: "string \<Rightarrow> 't SourceFile \<Rightarrow> 't SourceFile" where
  "console_log line s = s\<lparr>p_console := p_console s @ [line]\<rparr>"

subsection \<open>Parsing and import resolution\<close>

record ParseOptions =
  po_isStubFile :: bool
  po_pythonVersion :: "int option"

text \<open>\<open>new ParseOptions()\<close>; the default language version is left open.\<close>

definition new_ParseOptions :: ParseOptions where
  "new_ParseOptions = \<lparr>po_isStubFile = False, po_pythonVersion = None\<rparr>"

record ImportedModuleName =
  leadingDots :: int
  nameParts :: "string list"
  importedSymbols :: "string list option"

text \<open>A \<open>ModuleImport\<close> has the same three members and the name node.\<close>

record 't ModuleImport = ImportedModuleName +
  nameNode :: 't

text \<open>
  The collaborators of \<open>parse\<close>:
  \<^item> \<open>readFileSync path\<close>: the text of the file, or the thrown value;
  \<^item> \<open>parseSourceFile contents options sink\<close>: the parse results and the sink
    after the parser has written to it, or the thrown value;
  \<^item> \<open>postParseWalk lines sink tree\<close>: \<open>new PostParseWalker\<close>, \<open>analyze()\<close> and
    \<open>getImportedModules()\<close>: the tree with its parent links set, the module
    imports in the order found and the sink after the walk (the sink shares its
    array with the parser's), or the thrown value;
  \<^item> \<open>testWalk tree\<close>: the value thrown by the \<open>TestWalker\<close>, if any;
  \<^item> \<open>newModuleNode range\<close>: \<open>new ModuleNode(range)\<close>;
  \<^item> \<open>resolveImport filePath options execEnv name\<close>: \<open>resolveImport(name)\<close> of
    \<open>new ImportResolver(filePath, options, execEnv)\<close>, or the thrown value;
  \<^item> \<open>setImportInfo node result tree\<close>: the tree after
    \<open>AnalyzerNodeInfo.setImportInfo(node, result)\<close>, which writes to a node of it.
\<close>

record 't ParseCollaborators =
  readFileSync :: "string \<Rightarrow> Thrown + string"
  parseSourceFile ::
    "string option \<Rightarrow> ParseOptions \<Rightarrow> Diagnostic list \<Rightarrow>
       Thrown + ('t ParseResults \<times> Diagnostic list)"
  postParseWalk ::
    "TextRange list \<Rightarrow> Diagnostic list \<Rightarrow> 't \<Rightarrow>
       Thrown + ('t \<times> 't ModuleImport list \<times> Diagnostic list)"
  testWalk :: "'t \<Rightarrow> Thrown option"
  newModuleNode :: "TextRange \<Rightarrow> 't"
  resolveImport ::
    "string \<Rightarrow> ConfigOptions \<Rightarrow> ExecutionEnvironment \<Rightarrow> ImportedModuleName \<Rightarrow>
       Thrown + ImportResult"
  setImportInfo :: "'t \<Rightarrow> ImportResult \<Rightarrow> 't \<Rightarrow> 't"

text \<open>\<open>xs[0]\<close>, which is \<open>undefined\<close> for an empty array.\<close>

fun index0 :: "'a list \<Rightarrow> 'a option" where
  "index0 [] = None"
| "index0 (x # xs) = Some x"

text \<open>
  The loop of \<open>_resolveImports\<close> over the module imports: \<open>imports\<close> is the list
  pushed to, \<open>tree\<close> the tree whose name nodes receive the results. A throw
  comes with the tree as the loop has left it.
\<close>

fun resolveModuleImports ::
  "(ImportedModuleName \<Rightarrow> Thrown + ImportResult) \<Rightarrow> ('t \<Rightarrow> ImportResult \<Rightarrow> 't \<Rightarrow> 't) \<Rightarrow>
     't ModuleImport list \<Rightarrow> ImportResult list \<Rightarrow> 't \<Rightarrow>
     (Thrown \<times> 't) + (ImportResult list \<times> 't)" where
  "resolveModuleImports resolve setInfo [] imports tree = Inr (imports, tree)"
| "resolveModuleImports resolve setInfo (moduleImport # rest) imports tree =
     (case resolve \<lparr>leadingDots = leadingDots moduleImport,
                    nameParts = nameParts moduleImport,
                    importedSymbols = importedSymbols moduleImport\<rparr> of
        Inl e \<Rightarrow> Inl (e, tree)
      | Inr importResult \<Rightarrow>
          resolveModuleImports resolve setInfo rest (imports @ [importResult])
            (setInfo (nameNode moduleImport) importResult tree))"

definition resolveImports ::
  "'t ParseCollaborators \<Rightarrow> 't ModuleImport list \<Rightarrow> ConfigOptions \<Rightarrow> ExecutionEnvironment \<Rightarrow>
     't SourceFile \<Rightarrow> 't \<Rightarrow>
     (Thrown \<times> 't) +
     (ImportResult list \<times> ImportResult option \<times> string option \<times> 't)" where
  "resolveImports c moduleImports configOptions execEnv s tree =
     (let resolver = resolveImport c (p_filePath s) configOptions execEnv
      in case resolver \<lparr>leadingDots = 0, nameParts = [''builtins''],
                        importedSymbols = None\<rparr> of
           Inl e \<Rightarrow> Inl (e, tree)
         | Inr builtinsResolved \<Rightarrow>
             (let (imports1, builtinsImportResult) =
                    (if length (resolvedPaths builtinsResolved) = 0 \<or>
                        index0 (resolvedPaths builtinsResolved) \<noteq> Some (getFilePath s)
                     then ([] @ [builtinsResolved], Some builtinsResolved)
                     else ([], None))
              in case resolver \<lparr>leadingDots = 0, nameParts = [''typing''],
                                importedSymbols = None\<rparr> of
                   Inl e \<Rightarrow> Inl (e, tree)
                 | Inr typingImportResult \<Rightarrow>
                     (let (imports2, typingPath) =
                            (if length (resolvedPaths typingImportResult) = 0 \<or>
                                index0 (resolvedPaths typingImportResult) \<noteq> Some (getFilePath s)
                             then (imports1 @ [typingImportResult],
                                   index0 (resolvedPaths typingImportResult))
                             else (imports1, None))
                      in case resolveModuleImports resolver (setImportInfo c) moduleImports
                                imports2 tree of
                           Inl thrown \<Rightarrow> Inl thrown
                         | Inr (imports3, tree') \<Rightarrow>
                             Inr (imports3, builtinsImportResult, typingPath, tree'))))"

text \<open>
  The \<open>try\<close> block of \<open>parse\<close>: the state it ends in, or the thrown value with
  the state at the throw. The parse results are stored before the imports are
  resolved, so a throw of the import resolution leaves them stored, with the
  tree as the resolution has left it; the other throws leave the job as it was.
\<close>

definition parseTry ::
  "'t ParseCollaborators \<Rightarrow> ConfigOptions \<Rightarrow> ExecutionEnvironment \<Rightarrow> ParseOptions \<Rightarrow>
     string option \<Rightarrow> Diagnostic list \<Rightarrow> 't SourceFile \<Rightarrow>
     (Thrown \<times> 't SourceFile) + 't SourceFile" where
  "parseTry c configOptions execEnvironment parseOptions fileContents diagSink s =
     (case parseSourceFile c fileContents parseOptions diagSink of
        Inl e \<Rightarrow> Inl (e, s)
      | Inr (parsed, diagSink1) \<Rightarrow>
          (case postParseWalk c (lines parsed) diagSink1 (parseTree parsed) of
             Inl e \<Rightarrow> Inl (e, s)
           | Inr (tree1, importedModules, diagSink2) \<Rightarrow>
               (case (if internalTestMode configOptions then testWalk c tree1 else None) of
                  Some e \<Rightarrow> Inl (e, s)
                | None \<Rightarrow>
                    (case resolveImports c importedModules configOptions execEnvironment
                            s tree1 of
                       Inl (e, tree2) \<Rightarrow>
                         Inl (e, s\<lparr>p_analysisJob := (p_analysisJob s)
                                    \<lparr>parseResults := Some (parsed\<lparr>parseTree := tree2\<rparr>)\<rparr>\<rparr>)
                     | Inr (imports, builtins, typingPath, tree2) \<Rightarrow>
                         Inr (s\<lparr>p_analysisJob := (p_analysisJob s)
                                 \<lparr>parseResults := Some (parsed\<lparr>parseTree := tree2\<rparr>),
                                  imports_j := Some imports,
                                  builtinsImport := builtins,
                                  typingModulePath := typingPath,
                                  parseDiagnostics := diagSink2\<rparr>\<rparr>)))))"

text \<open>
  The \<open>catch\<close> block of \<open>parse\<close>: the repaired state, or the value
  \<open>JSON.stringify\<close> throws, which leaves \<open>parse\<close> before anything is repaired.
\<close>

definition parseCatch ::
  "'t ParseCollaborators \<Rightarrow> Thrown \<Rightarrow> 't SourceFile \<Rightarrow> Thrown + 't SourceFile" where
  "parseCatch c e s =
     (case thrownMessage e of
        Inl t \<Rightarrow> Inl t
      | Inr message_e \<Rightarrow>
          (let s1 = console_log (''An internal error occurred while parsing '' @
                                 getFilePath s @ '': '' @ message_e) s
           in Inr (s1\<lparr>p_analysisJob := (p_analysisJob s1)
                  \<lparr>parseResults :=
                     Some \<lparr>parseTree = newModuleNode c \<lparr>start = 0, length_r = 0\<rparr>,
                           tokens = [], lines = []\<rparr>,
                   imports_j := None,
                   builtinsImport := None,
                   parseDiagnostics :=
                     addError ''An internal error occurred while parsing file'' []\<rparr>\<rparr>)))"

text \<open>
  The first statements of \<open>parse\<close>: the text handed to the parser and the sink
  the parser starts with. With a client version the in-memory contents are
  handed on as they are; without one the file is read once, and a failed read
  gives the empty text and one error in the sink.
\<close>

definition readContents ::
  "'t ParseCollaborators \<Rightarrow> 't SourceFile \<Rightarrow> string option \<times> Diagnostic list" where
  "readContents c s =
     (if p_clientVersion s = None
      then (case readFileSync c (p_filePath s) of
              Inr text \<Rightarrow> (Some text, [])
            | Inl error \<Rightarrow> (Some [], addError ''Source file could not be read'' []))
      else (p_fileContents s, []))"

definition makeParseOptions :: "ConfigOptions \<Rightarrow> 't SourceFile \<Rightarrow> ParseOptions" where
  "makeParseOptions configOptions s =
     new_ParseOptions
       \<lparr>po_isStubFile := (if endsWith (p_filePath s) ''pyi'' then True
                          else po_isStubFile new_ParseOptions),
        po_pythonVersion :=
          Some (pythonVersion (findExecEnvironment configOptions (p_filePath s)))\<rparr>"

text \<open>\<open>parse\<close> up to the end of its \<open>try\<close> block.\<close>

definition parseAttempt ::
  "'t ParseCollaborators \<Rightarrow> ConfigOptions \<Rightarrow> 't SourceFile \<Rightarrow>
     (Thrown \<times> 't SourceFile) + 't SourceFile" where
  "parseAttempt c configOptions s =
     (let (fileContents, diagSink) = readContents c s;
          execEnvironment = findExecEnvironment configOptions (p_filePath s);
          parseOptions = makeParseOptions configOptions s
      in parseTry c configOptions execEnvironment parseOptions fileContents diagSink s)"

text \<open>The statements of \<open>parse\<close> after the \<open>try\<close> statement.\<close>

definition parseEpilogue :: "'t SourceFile \<Rightarrow> 't SourceFile" where
  "parseEpilogue s1 =
     s1\<lparr>p_analysisJob := (p_analysisJob s1)
          \<lparr>fileContentsVersion := p_fileContentsVersion s1,
           nextPhaseToRun := SemanticAnalysis,
           parseTreeNeedsCleaning := False\<rparr>,
        p_diagnosticVersion := p_diagnosticVersion s1 + 1\<rparr>"

text \<open>
  \<open>parse\<close>: how the call ends, with the boolean it returns on the right and the
  value that leaves it on the left, and the state of the object afterwards.
\<close>

definition parse ::
  "'t ParseCollaborators \<Rightarrow> ConfigOptions \<Rightarrow> 't SourceFile \<Rightarrow>
     (Thrown + bool) \<times> 't SourceFile" where
  "parse c configOptions s =
     (if \<not> isParseRequired s then (Inr False, s)
      else
        (case parseAttempt c configOptions s of
           Inr s' \<Rightarrow> (Inr True, parseEpilogue s')
         | Inl (e, s') \<Rightarrow>
             (case parseCatch c e s' of
                Inl t \<Rightarrow> (Inl t, s')
              | Inr s1 \<Rightarrow> (Inr True, parseEpilogue s1))))"

subsection \<open>Semantic analysis, type analysis, finalization\<close>

text \<open>
  The interface \<open>AnalyzerFileInfo\<close>. Its sink starts empty
  (\<open>new TextRangeDiagnosticSink(lines)\<close>); \<open>fi_console\<close> is the console as it is
  when the record is built.
\<close>

record AnalyzerFileInfo =
  fi_importMap :: ImportMap
  fi_builtinsScope :: "Scope option"
  fi_typingModulePath :: "string option"
  fi_diagnosticSink :: "Diagnostic list"
  fi_executionEnvironment :: ExecutionEnvironment
  fi_configOptions :: ConfigOptions
  fi_lines :: "TextRange list"
  fi_filePath :: string
  fi_isStubFile :: bool
  fi_isTypingStubFile :: bool
  fi_isBuiltInStubFile :: bool
  fi_console :: "string list"

definition buildFileInfo ::
  "ConfigOptions \<Rightarrow> ImportMap option \<Rightarrow> Scope option \<Rightarrow> 't SourceFile \<Rightarrow>
     't Fatal + AnalyzerFileInfo" where
  "buildFileInfo configOptions importMap builtinsScope s =
     (case parseResults (p_analysisJob s) of
        None \<Rightarrow> Inl AssertionError
      | Some parsed \<Rightarrow>
          Inr \<lparr>fi_importMap = (case importMap of None \<Rightarrow> Map.empty | Some m \<Rightarrow> m),
               fi_builtinsScope = builtinsScope,
               fi_typingModulePath = typingModulePath (p_analysisJob s),
               fi_diagnosticSink = [],
               fi_executionEnvironment = findExecEnvironment configOptions (p_filePath s),
               fi_configOptions = configOptions,
               fi_lines = lines parsed,
               fi_filePath = p_filePath s,
               fi_isStubFile = p_isStubFile s,
               fi_isTypingStubFile = p_isTypingStubFile s,
               fi_isBuiltInStubFile = p_isBuiltInStubFile s,
               fi_console = p_console s\<rparr>)"

text \<open>
  The analyzers and the cleaner write to the nodes of the tree they walk. The
  model replaces the stored tree by the tree they leave behind, also when they
  throw half way.
\<close>

definition setParseTree :: "'t \<Rightarrow> 't SourceFile \<Rightarrow> 't SourceFile" where
  "setParseTree tree s =
     s\<lparr>p_analysisJob := (p_analysisJob s)
         \<lparr>parseResults := map_option (\<lambda>parsed. parsed\<lparr>parseTree := tree\<rparr>)
                            (parseResults (p_analysisJob s))\<rparr>\<rparr>"

text \<open>
  The collaborators of the analysis phases:
  \<^item> \<open>clean tree\<close>: the tree after \<open>ParseTreeCleanerWalker.clean()\<close> and the
    value it threw, if any;
  \<^item> \<open>semanticAnalyze tree fileInfo\<close>: \<open>new ModuleScopeAnalyzer\<close> and
    \<open>analyze()\<close>: the tree afterwards and either the thrown value or the
    diagnostics of the file info's sink;
  \<^item> \<open>typeAnalyze tree fileInfo passNumber\<close>: the outcome of
    \<open>new TypeAnalyzer\<close> and \<open>analyze()\<close>.
\<close>

datatype 't TypeAnalyzerRun =
    ConstructorThrows Thrown
  | AnalyzeThrows 't Thrown
  | AnalyzeReturns 't bool "Diagnostic list"

record 't AnalysisCollaborators =
  clean :: "'t \<Rightarrow> 't \<times> Thrown option"
  semanticAnalyze :: "'t \<Rightarrow> AnalyzerFileInfo \<Rightarrow> 't \<times> (Thrown + Diagnostic list)"
  typeAnalyze :: "'t \<Rightarrow> AnalyzerFileInfo \<Rightarrow> int \<Rightarrow> 't TypeAnalyzerRun"

text \<open>
  \<open>_cleanParseTreeIfRequired\<close>: the state afterwards and the value thrown by the
  cleaner, if any; a throw leaves the cleaning flag set.
\<close>

definition cleanParseTreeIfRequired ::
  "'t AnalysisCollaborators \<Rightarrow> 't SourceFile \<Rightarrow> 't SourceFile \<times> Thrown option" where
  "cleanParseTreeIfRequired c s =
     (case parseResults (p_analysisJob s) of
        None \<Rightarrow> (s, None)
      | Some parsed \<Rightarrow>
          (if parseTreeNeedsCleaning (p_analysisJob s)
           then (case clean c (parseTree parsed) of
                   (tree, Some e) \<Rightarrow> (setParseTree tree s, Some e)
                 | (tree, None) \<Rightarrow>
                     (let s1 = setParseTree tree s
                      in (s1\<lparr>p_analysisJob := (p_analysisJob s1)
                              \<lparr>parseTreeNeedsCleaning := False\<rparr>\<rparr>, None)))
           else (s, None)))"

text \<open>
  The \<open>catch\<close> block of \<open>doSemanticAnalysis\<close>: the state with the synthetic
  diagnostic, or the value \<open>JSON.stringify\<close> throws.
\<close>

definition semanticCatch :: "Thrown \<Rightarrow> 't SourceFile \<Rightarrow> Thrown + 't SourceFile" where
  "semanticCatch e s =
     (case thrownMessage e of
        Inl t \<Rightarrow> Inl t
      | Inr message_e \<Rightarrow>
          (let s1 = console_log
                 (''An internal error occurred while performing semantic analysis for '' @
                  getFilePath s @ '': '' @ message_e) s
           in Inr (s1\<lparr>p_analysisJob := (p_analysisJob s1)
                  \<lparr>semanticAnalysisDiagnostics :=
                     addError ''An internal error occurred while performing semantic analysis''
                       []\<rparr>\<rparr>)))"

text \<open>
  The \<open>try\<close> statement of \<open>doSemanticAnalysis\<close>: the state after the \<open>try\<close>
  block or after the \<open>catch\<close> block, or the value that leaves the \<open>catch\<close>
  block with the state at that point.
\<close>

definition semanticTry ::
  "'t AnalysisCollaborators \<Rightarrow> AnalyzerFileInfo \<Rightarrow> 't SourceFile \<Rightarrow>
     (Thrown \<times> 't SourceFile) + 't SourceFile" where
  "semanticTry c fileInfo s =
     (let caught = (\<lambda>e sc. case semanticCatch e sc of
                              Inl t \<Rightarrow> Inl (t, sc) | Inr s1 \<Rightarrow> Inr s1)
      in case cleanParseTreeIfRequired c s of
           (sc, Some e) \<Rightarrow> caught e sc
         | (sc, None) \<Rightarrow>
             (case parseResults (p_analysisJob sc) of
                None \<Rightarrow> caught typeErrorUndefined sc
              | Some parsed \<Rightarrow>
                  (case semanticAnalyze c (parseTree parsed) fileInfo of
                     (tree, Inl e) \<Rightarrow> caught e (setParseTree tree sc)
                   | (tree, Inr diagnostics) \<Rightarrow>
                       (let sa = setParseTree tree sc
                        in Inr (sa\<lparr>p_analysisJob := (p_analysisJob sa)
                                   \<lparr>semanticAnalysisDiagnostics := diagnostics\<rparr>\<rparr>)))))"

definition doSemanticAnalysis ::
  "'t AnalysisCollaborators \<Rightarrow> ConfigOptions \<Rightarrow> Scope option \<Rightarrow> 't SourceFile \<Rightarrow>
     't Fatal + 't SourceFile" where
  "doSemanticAnalysis c configOptions builtinsScope s =
     (if isParseRequired s then Inl AssertionError
      else if \<not> isSemanticAnalysisRequired s then Inl AssertionError
      else if parseResults (p_analysisJob s) = None then Inl AssertionError
      else if nextPhaseToRun (p_analysisJob s) \<noteq> SemanticAnalysis then Inl AssertionError
      else
        (case buildFileInfo configOptions None builtinsScope s of
           Inl a \<Rightarrow> Inl a
         | Inr fileInfo \<Rightarrow>
             (case semanticTry c fileInfo s of
                Inl (t, sc) \<Rightarrow> Inl (Escaped t sc)
              | Inr s1 \<Rightarrow>
                  Inr (s1\<lparr>p_analysisJob := (p_analysisJob s1)
                          \<lparr>nextPhaseToRun := TypeAnalysis,
                           typeAnalysisPassNumber := 1,
                           circularDependencies := [],
                           isTypeAnalysisPassNeeded := True,
                           isTypeAnalysisFinalized := False\<rparr>,
                        p_diagnosticVersion := p_diagnosticVersion s1 + 1\<rparr>))))"

text \<open>
  The \<open>catch\<close> block of \<open>doTypeAnalysis\<close>: the state marked as complete, or the
  value \<open>JSON.stringify\<close> throws, which leaves \<open>doTypeAnalysis\<close> before the file
  is marked.
\<close>

definition typeCatch :: "Thrown \<Rightarrow> 't SourceFile \<Rightarrow> 't Fatal + 't SourceFile" where
  "typeCatch e s =
     (case thrownMessage e of
        Inl t \<Rightarrow> Inl (Escaped t s)
      | Inr message_e \<Rightarrow>
          (let s1 = console_log
                 (''An internal error occurred while while performing type analysis for '' @
                  getFilePath s @ '': '' @ message_e) s
           in Inr (s1\<lparr>p_analysisJob := (p_analysisJob s1)
                  \<lparr>isTypeAnalysisPassNeeded := False,
                   typeAnalysisLastPassDiagnostics :=
                     addError ''An internal error occurred while performing type analysis''
                       []\<rparr>\<rparr>)))"

text \<open>
  \<open>doTypeAnalysis\<close>: the pass number is incremented between the construction of
  the analyzer and its run.
\<close>

definition doTypeAnalysis ::
  "'t AnalysisCollaborators \<Rightarrow> ConfigOptions \<Rightarrow> ImportMap \<Rightarrow> 't SourceFile \<Rightarrow>
     't Fatal + 't SourceFile" where
  "doTypeAnalysis c configOptions importMap s =
     (if isParseRequired s then Inl AssertionError
      else if isSemanticAnalysisRequired s then Inl AssertionError
      else if \<not> isTypeAnalysisRequired s then Inl AssertionError
      else if parseResults (p_analysisJob s) = None then Inl AssertionError
      else if nextPhaseToRun (p_analysisJob s) \<noteq> TypeAnalysis then Inl AssertionError
      else
        (case buildFileInfo configOptions (Some importMap) None s of
           Inl a \<Rightarrow> Inl a
         | Inr fileInfo \<Rightarrow>
             (case parseResults (p_analysisJob s) of
                None \<Rightarrow> typeCatch typeErrorUndefined s
              | Some parsed \<Rightarrow>
                  (case typeAnalyze c (parseTree parsed) fileInfo
                          (typeAnalysisPassNumber (p_analysisJob s)) of
                     ConstructorThrows e \<Rightarrow> typeCatch e s
                   | AnalyzeThrows tree e \<Rightarrow>
                       (let s1 = setParseTree tree s
                        in typeCatch e
                             (s1\<lparr>p_analysisJob := (p_analysisJob s1)
                                  \<lparr>typeAnalysisPassNumber :=
                                     typeAnalysisPassNumber (p_analysisJob s1) + 1\<rparr>\<rparr>))
                   | AnalyzeReturns tree passNeeded diagnostics \<Rightarrow>
                       (let s1 = setParseTree tree s
                        in Inr (s1\<lparr>p_analysisJob := (p_analysisJob s1)
                                    \<lparr>typeAnalysisPassNumber :=
                                       typeAnalysisPassNumber (p_analysisJob s1) + 1,
                                     isTypeAnalysisPassNeeded := passNeeded,
                                     typeAnalysisLastPassDiagnostics := diagnostics\<rparr>\<rparr>))))))"

definition finalizeAnalysis :: "'t SourceFile \<Rightarrow> 't Fatal + 't SourceFile" where
  "finalizeAnalysis s =
     (if isTypeAnalysisRequired s then Inl AssertionError
      else Inr (s\<lparr>p_analysisJob := (p_analysisJob s)
                   \<lparr>isTypeAnalysisFinalized := True,
                    typeAnalysisFinalDiagnostics :=
                      typeAnalysisLastPassDiagnostics (p_analysisJob s),
                    typeAnalysisLastPassDiagnostics := []\<rparr>,
                 p_diagnosticVersion := p_diagnosticVersion s + 1\<rparr>))"

subsection \<open>Reachable states\<close>

text \<open>
  The states a source file can be in: the constructed state and every state a
  public method that changes the object leaves behind, whatever the
  collaborators do and whether the method returns or an exception leaves it. A
  method stopped by a failed assertion has changed nothing.
\<close>

inductive reachable :: "'t SourceFile \<Rightarrow> bool" where
  r_new: "reachable (new_SourceFile getFileName filePath isTypeshedStubFile)"
| r_markDirty: "reachable s \<Longrightarrow> reachable (markDirty s)"
| r_markReanalysisRequired: "reachable s \<Longrightarrow> reachable (markReanalysisRequired s)"
| r_setClientVersion: "reachable s \<Longrightarrow> reachable (setClientVersion version contents s)"
| r_setTypeAnalysisPassNeeded: "reachable s \<Longrightarrow> reachable (setTypeAnalysisPassNeeded s)"
| r_addCircularDependency:
    "reachable s \<Longrightarrow> reachable (addCircularDependency circDependency s)"
| r_parse: "reachable s \<Longrightarrow> reachable (snd (parse pc configOptions s))"
| r_doSemanticAnalysis:
    "reachable s \<Longrightarrow> doSemanticAnalysis ac configOptions builtinsScope s = Inr s' \<Longrightarrow>
       reachable s'"
| r_doTypeAnalysis:
    "reachable s \<Longrightarrow> doTypeAnalysis ac configOptions importMap s = Inr s' \<Longrightarrow>
       reachable s'"
| r_finalizeAnalysis: "reachable s \<Longrightarrow> finalizeAnalysis s = Inr s' \<Longrightarrow> reachable s'"
| r_doSemanticAnalysis_escaped:
    "reachable s \<Longrightarrow>
       doSemanticAnalysis ac configOptions builtinsScope s = Inl (Escaped t s') \<Longrightarrow>
       reachable s'"
| r_doTypeAnalysis_escaped:
    "reachable s \<Longrightarrow> doTypeAnalysis ac configOptions importMap s = Inl (Escaped t s') \<Longrightarrow>
       reachable s'"

subsection \<open>Example inputs\<close>

text \<open>
  A file \<open>/src/a.py\<close> with one import statement (two leading dots, name parts
  \<open>pkg\<close> and \<open>b\<close>), a resolver that finds one path for every module name, and
  collaborators that succeed. Parse nodes are numbers here.
\<close>

definition example_getFileName :: "string \<Rightarrow> string" where
  "example_getFileName path = rev (takeWhile (\<lambda>ch. ch \<noteq> CHR ''/'') (rev path))"

definition example_options :: ConfigOptions where
  "example_options =
     \<lparr>reportImportCycles = LevelError,
      reportTypeshedErrors = LevelWarning,
      ignore = [],
      internalTestMode = False,
      findExecEnvironment = (\<lambda>path. \<lparr>pythonVersion = 37\<rparr>)\<rparr>"

definition example_resolve :: "ImportedModuleName \<Rightarrow> Thrown + ImportResult" where
  "example_resolve name =
     Inr \<lparr>resolvedPaths = [''/lib/'' @ join (nameParts name) ''/'' @ ''.pyi'']\<rparr>"

definition example_import :: "nat ModuleImport" where
  "example_import =
     \<lparr>leadingDots = 2, nameParts = [''pkg'', ''b''], importedSymbols = None, nameNode = 1\<rparr>"

definition example_parser :: "nat ParseCollaborators" where
  "example_parser =
     \<lparr>readFileSync = (\<lambda>path. Inr ''from ..pkg import b''),
      parseSourceFile = (\<lambda>contents opts sink.
         Inr (\<lparr>parseTree = 0, tokens = [], lines = [\<lparr>start = 0, length_r = 18\<rparr>]\<rparr>, sink)),
      postParseWalk = (\<lambda>lns sink tree. Inr (tree, [example_import], sink)),
      testWalk = (\<lambda>tree. None),
      newModuleNode = (\<lambda>range. 0),
      resolveImport = (\<lambda>path opts env. example_resolve),
      setImportInfo = (\<lambda>node result tree. tree)\<rparr>"

text \<open>
  A parser that throws an \<open>Error\<close>, and a parser that throws an object that
  refers to itself, for which \<open>JSON.stringify\<close> throws a \<open>TypeError\<close>.
\<close>

definition example_failing_parser :: "nat ParseCollaborators" where
  "example_failing_parser =
     example_parser\<lparr>parseSourceFile :=
       (\<lambda>contents opts sink. Inl (ErrorInstance ''unexpected token''))\<rparr>"

definition example_circular :: Thrown where
  "example_circular = Unserialisable (ErrorInstance ''Converting circular structure to JSON'')"

definition example_circular_parser :: "nat ParseCollaborators" where
  "example_circular_parser =
     example_parser\<lparr>parseSourceFile := (\<lambda>contents opts sink. Inl example_circular)\<rparr>"

definition example_file :: "nat SourceFile" where
  "example_file = new_SourceFile example_getFileName ''/src/a.py'' False"

definition example_parsed :: "nat SourceFile" where
  "example_parsed = snd (parse example_parser example_options example_file)"

text \<open>
  Analyzers that succeed; the type analyzer reports one error and converges in
  its first pass. Then the same with a type analyzer that throws an \<open>Error\<close>,
  and with one that throws the object that refers to itself.
\<close>

definition example_analyzers :: "nat AnalysisCollaborators" where
  "example_analyzers =
     \<lparr>clean = (\<lambda>tree. (tree, None)),
      semanticAnalyze = (\<lambda>tree info. (tree, Inr [])),
      typeAnalyze = (\<lambda>tree info passNumber.
         AnalyzeReturns tree False
           [new_Diagnostic Error ''x has no attribute y'' (Some ((0, 0), (0, 1)))])\<rparr>"

definition example_failing_analyzers :: "nat AnalysisCollaborators" where
  "example_failing_analyzers =
     example_analyzers\<lparr>typeAnalyze :=
       (\<lambda>tree info passNumber. AnalyzeThrows tree (ErrorInstance ''stack overflow''))\<rparr>"

definition example_circular_analyzers :: "nat AnalysisCollaborators" where
  "example_circular_analyzers =
     example_analyzers\<lparr>typeAnalyze :=
       (\<lambda>tree info passNumber. AnalyzeThrows tree example_circular)\<rparr>"

definition example_analyzed :: "nat SourceFile" where
  "example_analyzed =
     projr (doSemanticAnalysis example_analyzers example_options None example_parsed)"

definition example_converged :: "nat SourceFile" where
  "example_converged =
     projr (doTypeAnalysis example_analyzers example_options Map.empty example_analyzed)"

definition example_finalized :: "nat SourceFile" where
  "example_finalized = projr (finalizeAnalysis example_converged)"

text \<open>
  Six reported import cycles, the third a repetition of the first, and options
  whose ignore list holds the empty path.
\<close>

definition example_cycles :: "CircularDependency list" where
  "example_cycles =
     [\<lparr>paths = [''/src/a.py'', ''/src/b.py'']\<rparr>,
      \<lparr>paths = [''/src/a.py'', ''/src/c.py'']\<rparr>,
      \<lparr>paths = [''/src/a.py'', ''/src/b.py'']\<rparr>,
      \<lparr>paths = [''/src/a.py'', ''/src/d.py'']\<rparr>,
      \<lparr>paths = [''/src/a.py'', ''/src/e.py'']\<rparr>,
      \<lparr>paths = [''/src/a.py'', ''/src/f.py'']\<rparr>]"

definition example_ignore_options :: ConfigOptions where
  "example_ignore_options = example_options\<lparr>ignore := ['''']\<rparr>"

section \<open>Properties\<close>

subsection \<open>What each method leaves unchanged\<close>

lemma parseTry_Inr:
  assumes "parseTry c configOptions env opts contents sink s = Inr s'"
  shows "p_fileContentsVersion s' = p_fileContentsVersion s"
    and "p_diagnosticVersion s' = p_diagnosticVersion s"
    and "p_fileContents s' = p_fileContents s"
    and "p_clientVersion s' = p_clientVersion s"
    and "circularDependencies (p_analysisJob s') = circularDependencies (p_analysisJob s)"
  using assms unfolding parseTry_def
  by (auto split: sum.splits prod.splits option.splits if_splits)

lemma parseTry_Inl:
  assumes "parseTry c configOptions env opts contents sink s = Inl (e, s')"
  shows "p_fileContentsVersion s' = p_fileContentsVersion s"
    and "p_diagnosticVersion s' = p_diagnosticVersion s"
    and "p_fileContents s' = p_fileContents s"
    and "p_clientVersion s' = p_clientVersion s"
    and "circularDependencies (p_analysisJob s') = circularDependencies (p_analysisJob s)"
    and "fileContentsVersion (p_analysisJob s') = fileContentsVersion (p_analysisJob s)"
  using assms unfolding parseTry_def
  by (auto split: sum.splits prod.splits option.splits if_splits)

lemma parseAttempt_Inr:
  assumes "parseAttempt c configOptions s = Inr s'"
  shows "p_fileContentsVersion s' = p_fileContentsVersion s"
    and "p_diagnosticVersion s' = p_diagnosticVersion s"
    and "p_fileContents s' = p_fileContents s"
    and "p_clientVersion s' = p_clientVersion s"
    and "circularDependencies (p_analysisJob s') = circularDependencies (p_analysisJob s)"
  using assms parseTry_Inr[of c configOptions _ _ _ _ s s'] unfolding parseAttempt_def
  by (auto split: prod.splits)

lemma parseAttempt_Inl:
  assumes "parseAttempt c configOptions s = Inl (e, s')"
  shows "p_fileContentsVersion s' = p_fileContentsVersion s"
    and "p_diagnosticVersion s' = p_diagnosticVersion s"
    and "p_fileContents s' = p_fileContents s"
    and "p_clientVersion s' = p_clientVersion s"
    and "circularDependencies (p_analysisJob s') = circularDependencies (p_analysisJob s)"
    and "fileContentsVersion (p_analysisJob s') = fileContentsVersion (p_analysisJob s)"
  using assms parseTry_Inl[of c configOptions _ _ _ _ s e s'] unfolding parseAttempt_def
  by (auto split: prod.splits)

lemma parseCatch_frame:
  assumes "parseCatch c e s = Inr s1"
  shows "p_fileContentsVersion s1 = p_fileContentsVersion s"
    and "p_diagnosticVersion s1 = p_diagnosticVersion s"
    and "p_fileContents s1 = p_fileContents s"
    and "p_clientVersion s1 = p_clientVersion s"
    and "circularDependencies (p_analysisJob s1) = circularDependencies (p_analysisJob s)"
  using assms
  by (auto simp: parseCatch_def console_log_def Let_def split: sum.splits)

lemma parseEpilogue_frame:
  shows "p_fileContentsVersion (parseEpilogue s) = p_fileContentsVersion s"
    and "fileContentsVersion (p_analysisJob (parseEpilogue s)) = p_fileContentsVersion s"
    and "nextPhaseToRun (p_analysisJob (parseEpilogue s)) = SemanticAnalysis"
    and "parseTreeNeedsCleaning (p_analysisJob (parseEpilogue s)) = False"
    and "p_diagnosticVersion (parseEpilogue s) = p_diagnosticVersion s + 1"
    and "circularDependencies (p_analysisJob (parseEpilogue s)) =
           circularDependencies (p_analysisJob s)"
    and "p_fileContents (parseEpilogue s) = p_fileContents s"
    and "parseResults (p_analysisJob (parseEpilogue s)) = parseResults (p_analysisJob s)"
    and "imports_j (p_analysisJob (parseEpilogue s)) = imports_j (p_analysisJob s)"
    and "builtinsImport (p_analysisJob (parseEpilogue s)) = builtinsImport (p_analysisJob s)"
    and "parseDiagnostics (p_analysisJob (parseEpilogue s)) = parseDiagnostics (p_analysisJob s)"
  by (simp_all add: parseEpilogue_def)

lemma parse_not_required:
  "\<not> isParseRequired s \<Longrightarrow> parse c configOptions s = (Inr False, s)"
  by (simp add: parse_def)

text \<open>A parse that is required and returns.\<close>

lemma parse_returned_frame:
  assumes "fst (parse c configOptions s) = Inr True"
  shows "isParseRequired s"
    and "p_fileContentsVersion (snd (parse c configOptions s)) = p_fileContentsVersion s"
    and "fileContentsVersion (p_analysisJob (snd (parse c configOptions s))) =
           p_fileContentsVersion s"
    and "nextPhaseToRun (p_analysisJob (snd (parse c configOptions s))) = SemanticAnalysis"
    and "parseTreeNeedsCleaning (p_analysisJob (snd (parse c configOptions s))) = False"
    and "p_diagnosticVersion (snd (parse c configOptions s)) = p_diagnosticVersion s + 1"
    and "circularDependencies (p_analysisJob (snd (parse c configOptions s))) =
           circularDependencies (p_analysisJob s)"
    and "p_fileContents (snd (parse c configOptions s)) = p_fileContents s"
  using assms parseAttempt_Inr[of c configOptions s] parseAttempt_Inl[of c configOptions s]
    parseCatch_frame[of c]
  by (auto simp: parse_def parseEpilogue_frame split: sum.splits prod.splits if_splits)

text \<open>A parse that an exception leaves.\<close>

lemma parse_escaped_frame:
  assumes "fst (parse c configOptions s) = Inl t"
  shows "isParseRequired s"
    and "p_fileContentsVersion (snd (parse c configOptions s)) = p_fileContentsVersion s"
    and "fileContentsVersion (p_analysisJob (snd (parse c configOptions s))) =
           fileContentsVersion (p_analysisJob s)"
    and "p_diagnosticVersion (snd (parse c configOptions s)) = p_diagnosticVersion s"
    and "circularDependencies (p_analysisJob (snd (parse c configOptions s))) =
           circularDependencies (p_analysisJob s)"
    and "p_fileContents (snd (parse c configOptions s)) = p_fileContents s"
  using assms parseAttempt_Inl[of c configOptions s]
  by (auto simp: parse_def split: sum.splits prod.splits if_splits)

lemma parse_ends:
  "parse c configOptions s = (Inr False, s) \<and> \<not> isParseRequired s \<or>
   fst (parse c configOptions s) = Inr True \<or>
   (\<exists>t. fst (parse c configOptions s) = Inl t)"
  by (auto simp: parse_def split: sum.splits prod.splits)

lemma setParseTree_frame:
  shows "p_fileContentsVersion (setParseTree t s) = p_fileContentsVersion s"
    and "p_diagnosticVersion (setParseTree t s) = p_diagnosticVersion s"
    and "p_fileContents (setParseTree t s) = p_fileContents s"
    and "fileContentsVersion (p_analysisJob (setParseTree t s)) =
           fileContentsVersion (p_analysisJob s)"
    and "circularDependencies (p_analysisJob (setParseTree t s)) =
           circularDependencies (p_analysisJob s)"
    and "nextPhaseToRun (p_analysisJob (setParseTree t s)) = nextPhaseToRun (p_analysisJob s)"
    and "typeAnalysisPassNumber (p_analysisJob (setParseTree t s)) =
           typeAnalysisPassNumber (p_analysisJob s)"
  by (simp_all add: setParseTree_def)

lemma semanticCatch_frame:
  assumes "semanticCatch e s = Inr s1"
  shows "(p_fileContentsVersion s1 = p_fileContentsVersion s) \<and>
         (p_diagnosticVersion s1 = p_diagnosticVersion s) \<and>
         (p_fileContents s1 = p_fileContents s) \<and>
         (fileContentsVersion (p_analysisJob s1) = fileContentsVersion (p_analysisJob s)) \<and>
         (circularDependencies (p_analysisJob s1) = circularDependencies (p_analysisJob s))"
  using assms
  by (auto simp: semanticCatch_def console_log_def Let_def split: sum.splits)

lemma cleanParseTreeIfRequired_frame:
  assumes "cleanParseTreeIfRequired c s = (s', r)"
  shows "(p_fileContentsVersion s' = p_fileContentsVersion s) \<and>
         (p_diagnosticVersion s' = p_diagnosticVersion s) \<and>
         (p_fileContents s' = p_fileContents s) \<and>
         (fileContentsVersion (p_analysisJob s') = fileContentsVersion (p_analysisJob s)) \<and>
         (circularDependencies (p_analysisJob s') = circularDependencies (p_analysisJob s))"
  using assms unfolding cleanParseTreeIfRequired_def
  by (auto simp: setParseTree_frame Let_def split: option.splits if_splits prod.splits)

text \<open>The \<open>try\<close> statement of the semantic analysis, however it ends.\<close>

lemma semanticTry_frame:
  assumes "semanticTry c fileInfo s = Inr s' \<or> semanticTry c fileInfo s = Inl (t, s')"
  shows "p_fileContentsVersion s' = p_fileContentsVersion s"
    and "p_diagnosticVersion s' = p_diagnosticVersion s"
    and "p_fileContents s' = p_fileContents s"
    and "fileContentsVersion (p_analysisJob s') = fileContentsVersion (p_analysisJob s)"
    and "circularDependencies (p_analysisJob s') = circularDependencies (p_analysisJob s)"
  using assms unfolding semanticTry_def
  by (auto simp: setParseTree_frame Let_def
      dest!: cleanParseTreeIfRequired_frame semanticCatch_frame
      split: option.splits prod.splits sum.splits)

lemma doSemanticAnalysis_frame:
  assumes "doSemanticAnalysis c configOptions builtinsScope s = Inr s'"
  shows "p_fileContentsVersion s' = p_fileContentsVersion s"
    and "fileContentsVersion (p_analysisJob s') = fileContentsVersion (p_analysisJob s)"
    and "p_diagnosticVersion s' = p_diagnosticVersion s + 1"
    and "circularDependencies (p_analysisJob s') = []"
    and "p_fileContents s' = p_fileContents s"
  using assms unfolding doSemanticAnalysis_def
  by (auto dest: semanticTry_frame[OF disjI1]
      split: option.splits if_splits prod.splits sum.splits)

lemma doSemanticAnalysis_escaped_frame:
  assumes "doSemanticAnalysis c configOptions builtinsScope s = Inl (Escaped t s')"
  shows "p_fileContentsVersion s' = p_fileContentsVersion s"
    and "fileContentsVersion (p_analysisJob s') = fileContentsVersion (p_analysisJob s)"
    and "p_diagnosticVersion s' = p_diagnosticVersion s"
    and "circularDependencies (p_analysisJob s') = circularDependencies (p_analysisJob s)"
    and "p_fileContents s' = p_fileContents s"
  using assms unfolding doSemanticAnalysis_def buildFileInfo_def
  by (auto dest: semanticTry_frame[OF disjI2]
      split: option.splits if_splits prod.splits sum.splits)

lemma typeCatch_frame:
  assumes "typeCatch e s = Inr s1"
  shows "p_fileContentsVersion s1 = p_fileContentsVersion s"
    and "p_diagnosticVersion s1 = p_diagnosticVersion s"
    and "p_fileContents s1 = p_fileContents s"
    and "fileContentsVersion (p_analysisJob s1) = fileContentsVersion (p_analysisJob s)"
    and "circularDependencies (p_analysisJob s1) = circularDependencies (p_analysisJob s)"
    and "nextPhaseToRun (p_analysisJob s1) = nextPhaseToRun (p_analysisJob s)"
    and "isTypeAnalysisPassNeeded (p_analysisJob s1) = False"
    and "typeAnalysisLastPassDiagnostics (p_analysisJob s1) =
           [new_Diagnostic Error ''An internal error occurred while performing type analysis''
              None]"
    and "parseDiagnostics (p_analysisJob s1) = parseDiagnostics (p_analysisJob s)"
    and "semanticAnalysisDiagnostics (p_analysisJob s1) =
           semanticAnalysisDiagnostics (p_analysisJob s)"
    and "typeAnalysisFinalDiagnostics (p_analysisJob s1) =
           typeAnalysisFinalDiagnostics (p_analysisJob s)"
  using assms
  by (auto simp: typeCatch_def console_log_def Let_def addError_def split: sum.splits)

lemma typeCatch_escaped:
  assumes "typeCatch e s = Inl f"
  shows "\<exists>t. f = Escaped t s \<and> thrownMessage e = Inl t"
  using assms by (auto simp: typeCatch_def Let_def split: sum.splits)

lemma doTypeAnalysis_frame:
  assumes "doTypeAnalysis c configOptions importMap s = Inr s'"
  shows "p_fileContentsVersion s' = p_fileContentsVersion s"
    and "fileContentsVersion (p_analysisJob s') = fileContentsVersion (p_analysisJob s)"
    and "p_diagnosticVersion s' = p_diagnosticVersion s"
    and "circularDependencies (p_analysisJob s') = circularDependencies (p_analysisJob s)"
    and "p_fileContents s' = p_fileContents s"
    and "nextPhaseToRun (p_analysisJob s') = nextPhaseToRun (p_analysisJob s)"
  using assms unfolding doTypeAnalysis_def
  by (auto simp: setParseTree_frame Let_def typeCatch_def console_log_def
      split: option.splits if_splits prod.splits sum.splits TypeAnalyzerRun.splits)

lemma doTypeAnalysis_escaped_frame:
  assumes "doTypeAnalysis c configOptions importMap s = Inl (Escaped t s')"
  shows "p_fileContentsVersion s' = p_fileContentsVersion s"
    and "fileContentsVersion (p_analysisJob s') = fileContentsVersion (p_analysisJob s)"
    and "p_diagnosticVersion s' = p_diagnosticVersion s"
    and "circularDependencies (p_analysisJob s') = circularDependencies (p_analysisJob s)"
    and "p_fileContents s' = p_fileContents s"
  using assms unfolding doTypeAnalysis_def buildFileInfo_def
  by (auto simp: setParseTree_frame Let_def dest!: typeCatch_escaped
      split: option.splits if_splits prod.splits sum.splits TypeAnalyzerRun.splits)

lemma finalizeAnalysis_frame:
  assumes "finalizeAnalysis s = Inr s'"
  shows "p_fileContentsVersion s' = p_fileContentsVersion s"
    and "fileContentsVersion (p_analysisJob s') = fileContentsVersion (p_analysisJob s)"
    and "p_diagnosticVersion s' = p_diagnosticVersion s + 1"
    and "circularDependencies (p_analysisJob s') = circularDependencies (p_analysisJob s)"
    and "p_fileContents s' = p_fileContents s"
  using assms unfolding finalizeAnalysis_def
  by (auto split: if_splits)

subsection \<open>Invariants of the reachable states\<close>

lemma setClientVersion_versions:
  shows "fileContentsVersion (p_analysisJob (setClientVersion v contents s)) =
           fileContentsVersion (p_analysisJob s)"
    and "p_fileContentsVersion s \<le> p_fileContentsVersion (setClientVersion v contents s)"
    and "circularDependencies (p_analysisJob (setClientVersion v contents s)) =
           circularDependencies (p_analysisJob s)"
  by (simp_all add: setClientVersion_def markDirty_def Let_def)

lemma addCircularDependency_versions:
  shows "fileContentsVersion (p_analysisJob (addCircularDependency d s)) =
           fileContentsVersion (p_analysisJob s)"
    and "p_fileContentsVersion (addCircularDependency d s) = p_fileContentsVersion s"
  by (simp_all add: addCircularDependency_def)

lemma parse_versions:
  assumes "fileContentsVersion (p_analysisJob s) \<le> p_fileContentsVersion s"
  shows "fileContentsVersion (p_analysisJob (snd (parse c configOptions s))) \<le>
           p_fileContentsVersion (snd (parse c configOptions s))"
  using parse_ends[of c configOptions s] assms
  by (auto simp: parse_returned_frame parse_escaped_frame)

lemma parse_circularDependencies:
  "circularDependencies (p_analysisJob (snd (parse c configOptions s))) =
     circularDependencies (p_analysisJob s)"
  using parse_ends[of c configOptions s]
  by (auto simp: parse_returned_frame parse_escaped_frame)

lemma reachable_versions:
  assumes "reachable s"
  shows "fileContentsVersion (p_analysisJob s) \<le> p_fileContentsVersion s"
  using assms
proof (induction rule: reachable.induct)
  case r_new
  show ?case by (simp add: new_SourceFile_def initialAnalysisJob_def Let_def)
next
  case r_markDirty
  then show ?case by (simp add: markDirty_def)
next
  case r_markReanalysisRequired
  then show ?case by (simp add: markReanalysisRequired_def)
next
  case r_setClientVersion
  then show ?case
    by (simp add: setClientVersion_def markDirty_def Let_def)
next
  case r_setTypeAnalysisPassNeeded
  then show ?case by (simp add: setTypeAnalysisPassNeeded_def)
next
  case r_addCircularDependency
  then show ?case by (simp add: addCircularDependency_versions)
next
  case r_parse
  then show ?case by (simp add: parse_versions)
next
  case r_doSemanticAnalysis
  then show ?case by (simp add: doSemanticAnalysis_frame)
next
  case r_doTypeAnalysis
  then show ?case by (simp add: doTypeAnalysis_frame)
next
  case r_finalizeAnalysis
  then show ?case by (simp add: finalizeAnalysis_frame)
next
  case r_doSemanticAnalysis_escaped
  then show ?case by (simp add: doSemanticAnalysis_escaped_frame)
next
  case r_doTypeAnalysis_escaped
  then show ?case by (simp add: doTypeAnalysis_escaped_frame)
qed

lemma addCircularDependency_invariant:
  assumes "length (circularDependencies (p_analysisJob s)) \<le> MaxImportCyclesPerFile"
    and "distinct (map getPaths (circularDependencies (p_analysisJob s)))"
  shows "length (circularDependencies (p_analysisJob (addCircularDependency d s)))
           \<le> MaxImportCyclesPerFile"
    and "distinct (map getPaths (circularDependencies (p_analysisJob (addCircularDependency d s))))"
  using assms
  by (auto simp: addCircularDependency_def list_ex_iff isEqual_def getPaths_def)

lemma reachable_circularDependencies:
  assumes "reachable s"
  shows "length (circularDependencies (p_analysisJob s)) \<le> MaxImportCyclesPerFile \<and>
         distinct (map getPaths (circularDependencies (p_analysisJob s)))"
  using assms
proof (induction rule: reachable.induct)
  case r_new
  show ?case by (simp add: new_SourceFile_def initialAnalysisJob_def Let_def)
next
  case r_markDirty
  then show ?case by (simp add: markDirty_def)
next
  case r_markReanalysisRequired
  then show ?case by (simp add: markReanalysisRequired_def)
next
  case r_setClientVersion
  then show ?case by (simp add: setClientVersion_versions)
next
  case r_setTypeAnalysisPassNeeded
  then show ?case by (simp add: setTypeAnalysisPassNeeded_def)
next
  case r_addCircularDependency
  then show ?case using addCircularDependency_invariant by blast
next
  case r_parse
  then show ?case by (simp add: parse_circularDependencies)
next
  case r_doSemanticAnalysis
  then show ?case by (simp add: doSemanticAnalysis_frame)
next
  case r_doTypeAnalysis
  then show ?case by (simp add: doTypeAnalysis_frame)
next
  case r_finalizeAnalysis
  then show ?case by (simp add: finalizeAnalysis_frame)
next
  case r_doSemanticAnalysis_escaped
  then show ?case by (simp add: doSemanticAnalysis_escaped_frame)
next
  case r_doTypeAnalysis_escaped
  then show ?case by (simp add: doTypeAnalysis_escaped_frame)
qed

subsection \<open>Phase predicates\<close>

text \<open>
  C1. The four phase predicates depend on the current state only, with these
  meanings: a parse is required iff the analyzed contents version differs from
  the current one; semantic analysis is required iff a parse is required or the
  next phase to run is at most \<open>SemanticAnalysis\<close>; type analysis is required iff
  semantic analysis is required, or the next phase is before \<open>TypeAnalysis\<close>, or
  another type analysis pass is needed; the analysis is finalized iff type
  analysis is not required and the finalized flag is set. Right after
  construction the three \<open>Required\<close> predicates hold and the analysis is not
  finalized.
\<close>

theorem phase_predicates:
  "(isParseRequired s \<longleftrightarrow>
      fileContentsVersion (p_analysisJob s) \<noteq> p_fileContentsVersion s) \<and>
   (isSemanticAnalysisRequired s \<longleftrightarrow>
      isParseRequired s \<or>
      phaseValue (nextPhaseToRun (p_analysisJob s)) \<le> phaseValue SemanticAnalysis) \<and>
   (isTypeAnalysisRequired s \<longleftrightarrow>
      isSemanticAnalysisRequired s \<or>
      phaseValue (nextPhaseToRun (p_analysisJob s)) < phaseValue TypeAnalysis \<or>
      isTypeAnalysisPassNeeded (p_analysisJob s)) \<and>
   (isAnalysisFinalized s \<longleftrightarrow>
      \<not> isTypeAnalysisRequired s \<and> isTypeAnalysisFinalized (p_analysisJob s)) \<and>
   isParseRequired (new_SourceFile getFileName filePath isTypeshedStubFile) \<and>
   isSemanticAnalysisRequired (new_SourceFile getFileName filePath isTypeshedStubFile) \<and>
   isTypeAnalysisRequired (new_SourceFile getFileName filePath isTypeshedStubFile) \<and>
   \<not> isAnalysisFinalized (new_SourceFile getFileName filePath isTypeshedStubFile)"
  by (simp add: isParseRequired_def isSemanticAnalysisRequired_def isTypeAnalysisRequired_def
      isAnalysisFinalized_def new_SourceFile_def initialAnalysisJob_def Let_def)

theorem phase_predicates_witness:
  "isParseRequired example_file \<and>
   isSemanticAnalysisRequired example_file \<and>
   isTypeAnalysisRequired example_file \<and>
   \<not> isAnalysisFinalized example_file \<and>
   fileContentsVersion (p_analysisJob example_file) = - 1 \<and>
   p_fileContentsVersion example_file = 0"
  using phase_predicates [of example_file example_getFileName "''/src/a.py''" False]
  by (simp add: example_file_def new_SourceFile_def initialAnalysisJob_def Let_def
      isParseRequired_def isSemanticAnalysisRequired_def isTypeAnalysisRequired_def
      isAnalysisFinalized_def)

subsection \<open>The example run\<close>

text \<open>
  The example file is constructed, parsed, analyzed, type-checked in one pass
  and finalized; each state is computed here once.
\<close>

lemma example_file_value:
  "example_file =
     \<lparr>p_console = [], p_filePath = ''/src/a.py'', p_isStubFile = False,
      p_isTypeshedStubFile = False, p_isTypingStubFile = False, p_isBuiltInStubFile = False,
      p_analysisJob = initialAnalysisJob, p_diagnosticVersion = 0, p_fileContentsVersion = 0,
      p_clientVersion = None, p_fileContents = None\<rparr>"
  by (simp add: example_file_def new_SourceFile_def Let_def endsWith_def suffix_def)

lemma example_parser_fields:
  "readFileSync example_parser = (\<lambda>path. Inr ''from ..pkg import b'')"
  "parseSourceFile example_parser = (\<lambda>contents opts sink.
         Inr (\<lparr>parseTree = 0, tokens = [], lines = [\<lparr>start = 0, length_r = 18\<rparr>]\<rparr>, sink))"
  "postParseWalk example_parser = (\<lambda>lns sink tree. Inr (tree, [example_import], sink))"
  "testWalk example_parser = (\<lambda>tree. None)"
  "newModuleNode example_parser = (\<lambda>range. 0)"
  "resolveImport example_parser = (\<lambda>path opts env. example_resolve)"
  "setImportInfo example_parser = (\<lambda>node result tree. tree)"
  by (simp_all add: example_parser_def)

lemma example_resolveImports:
  "resolveImports example_parser [example_import] example_options \<lparr>pythonVersion = 37\<rparr>
     example_file 0 =
   Inr ([\<lparr>resolvedPaths = [''/lib/builtins.pyi'']\<rparr>,
         \<lparr>resolvedPaths = [''/lib/typing.pyi'']\<rparr>,
         \<lparr>resolvedPaths = [''/lib/pkg/b.pyi'']\<rparr>],
        Some \<lparr>resolvedPaths = [''/lib/builtins.pyi'']\<rparr>,
        Some ''/lib/typing.pyi'', 0)"
  by (simp add: resolveImports_def example_parser_fields example_resolve_def example_import_def
      example_file_value getFilePath_def Let_def)

lemma example_parseAttempt:
  "parseAttempt example_parser example_options example_file =
     Inr (example_file\<lparr>p_analysisJob := initialAnalysisJob
       \<lparr>parseResults := Some \<lparr>parseTree = 0, tokens = [],
                                lines = [\<lparr>start = 0, length_r = 18\<rparr>]\<rparr>,
        imports_j := Some [\<lparr>resolvedPaths = [''/lib/builtins.pyi'']\<rparr>,
                           \<lparr>resolvedPaths = [''/lib/typing.pyi'']\<rparr>,
                           \<lparr>resolvedPaths = [''/lib/pkg/b.pyi'']\<rparr>],
        builtinsImport := Some \<lparr>resolvedPaths = [''/lib/builtins.pyi'']\<rparr>,
        typingModulePath := Some ''/lib/typing.pyi'',
        parseDiagnostics := []\<rparr>\<rparr>)"
proof -
  have rc: "readContents example_parser example_file = (Some ''from ..pkg import b'', [])"
    by (simp add: readContents_def example_parser_fields example_file_value)
  have env: "findExecEnvironment example_options (p_filePath example_file) =
               \<lparr>pythonVersion = 37\<rparr>"
    by (simp add: example_options_def)
  have "parseTry example_parser example_options \<lparr>pythonVersion = 37\<rparr>
          (makeParseOptions example_options example_file) (Some ''from ..pkg import b'') []
          example_file =
        Inr (example_file\<lparr>p_analysisJob := initialAnalysisJob
       \<lparr>parseResults := Some \<lparr>parseTree = 0, tokens = [],
                                lines = [\<lparr>start = 0, length_r = 18\<rparr>]\<rparr>,
        imports_j := Some [\<lparr>resolvedPaths = [''/lib/builtins.pyi'']\<rparr>,
                           \<lparr>resolvedPaths = [''/lib/typing.pyi'']\<rparr>,
                           \<lparr>resolvedPaths = [''/lib/pkg/b.pyi'']\<rparr>],
        builtinsImport := Some \<lparr>resolvedPaths = [''/lib/builtins.pyi'']\<rparr>,
        typingModulePath := Some ''/lib/typing.pyi'',
        parseDiagnostics := []\<rparr>\<rparr>)"
    unfolding parseTry_def
    by (simp add: example_parser_fields(2,3,4) example_resolveImports)
       (simp add: example_file_value)
  then show ?thesis
    by (simp add: parseAttempt_def rc env)
qed

lemma example_parsed_value:
  "example_parsed =
     \<lparr>p_console = [], p_filePath = ''/src/a.py'', p_isStubFile = False,
      p_isTypeshedStubFile = False, p_isTypingStubFile = False, p_isBuiltInStubFile = False,
      p_analysisJob =
        \<lparr>fileContentsVersion = 0,
         nextPhaseToRun = SemanticAnalysis,
         parseTreeNeedsCleaning = False,
         parseResults = Some \<lparr>parseTree = 0, tokens = [],
                                lines = [\<lparr>start = 0, length_r = 18\<rparr>]\<rparr>,
         parseDiagnostics = [],
         semanticAnalysisDiagnostics = [],
         typeAnalysisLastPassDiagnostics = [],
         typeAnalysisFinalDiagnostics = [],
         circularDependencies = [],
         typeAnalysisPassNumber = 1,
         isTypeAnalysisPassNeeded = True,
         isTypeAnalysisFinalized = False,
         imports_j = Some [\<lparr>resolvedPaths = [''/lib/builtins.pyi'']\<rparr>,
                           \<lparr>resolvedPaths = [''/lib/typing.pyi'']\<rparr>,
                           \<lparr>resolvedPaths = [''/lib/pkg/b.pyi'']\<rparr>],
         builtinsImport = Some \<lparr>resolvedPaths = [''/lib/builtins.pyi'']\<rparr>,
         typingModulePath = Some ''/lib/typing.pyi''\<rparr>,
      p_diagnosticVersion = 1, p_fileContentsVersion = 0,
      p_clientVersion = None, p_fileContents = None\<rparr>"
  unfolding example_parsed_def parse_def parseEpilogue_def
  by (simp add: example_parseAttempt)
     (simp add: example_file_value initialAnalysisJob_def isParseRequired_def)

lemma example_analyzers_fields:
  "clean example_analyzers = (\<lambda>tree. (tree, None))"
  "semanticAnalyze example_analyzers = (\<lambda>tree info. (tree, Inr []))"
  "typeAnalyze example_analyzers = (\<lambda>tree info passNumber.
         AnalyzeReturns tree False
           [new_Diagnostic Error ''x has no attribute y'' (Some ((0, 0), (0, 1)))])"
  by (simp_all add: example_analyzers_def)

lemma example_failing_analyzers_fields:
  "clean example_failing_analyzers = (\<lambda>tree. (tree, None))"
  "semanticAnalyze example_failing_analyzers = (\<lambda>tree info. (tree, Inr []))"
  "typeAnalyze example_failing_analyzers =
     (\<lambda>tree info passNumber. AnalyzeThrows tree (ErrorInstance ''stack overflow''))"
  by (simp_all add: example_failing_analyzers_def example_analyzers_def)

lemma example_doSemanticAnalysis:
  "doSemanticAnalysis example_analyzers example_options None example_parsed =
     Inr (example_parsed\<lparr>p_analysisJob := (p_analysisJob example_parsed)
            \<lparr>nextPhaseToRun := TypeAnalysis\<rparr>,
          p_diagnosticVersion := 2\<rparr>)"
  by (simp add: doSemanticAnalysis_def isParseRequired_def isSemanticAnalysisRequired_def
      buildFileInfo_def semanticTry_def cleanParseTreeIfRequired_def setParseTree_def
      example_analyzers_fields example_parsed_value Let_def)

lemma example_analyzed_value:
  "example_analyzed =
     example_parsed\<lparr>p_analysisJob := (p_analysisJob example_parsed)
            \<lparr>nextPhaseToRun := TypeAnalysis\<rparr>,
          p_diagnosticVersion := 2\<rparr>"
  by (simp add: example_analyzed_def example_doSemanticAnalysis)

lemma example_doTypeAnalysis:
  "doTypeAnalysis example_analyzers example_options Map.empty example_analyzed =
     Inr (example_analyzed\<lparr>p_analysisJob := (p_analysisJob example_analyzed)
            \<lparr>typeAnalysisPassNumber := 2,
             isTypeAnalysisPassNeeded := False,
             typeAnalysisLastPassDiagnostics :=
               [new_Diagnostic Error ''x has no attribute y'' (Some ((0, 0), (0, 1)))]\<rparr>\<rparr>)"
  by (simp add: doTypeAnalysis_def isParseRequired_def isSemanticAnalysisRequired_def
      isTypeAnalysisRequired_def
      buildFileInfo_def setParseTree_def example_analyzed_value
      example_analyzers_fields example_parsed_value Let_def)

lemma example_converged_value:
  "example_converged =
     example_analyzed\<lparr>p_analysisJob := (p_analysisJob example_analyzed)
            \<lparr>typeAnalysisPassNumber := 2,
             isTypeAnalysisPassNeeded := False,
             typeAnalysisLastPassDiagnostics :=
               [new_Diagnostic Error ''x has no attribute y'' (Some ((0, 0), (0, 1)))]\<rparr>\<rparr>"
  by (simp add: example_converged_def example_doTypeAnalysis)

lemma example_converged_not_required: "\<not> isTypeAnalysisRequired example_converged"
  by (simp add: example_converged_value example_analyzed_value example_parsed_value
      isTypeAnalysisRequired_def isSemanticAnalysisRequired_def isParseRequired_def)

lemma example_finalizeAnalysis:
  "finalizeAnalysis example_converged =
     Inr (example_converged\<lparr>p_analysisJob := (p_analysisJob example_converged)
            \<lparr>isTypeAnalysisFinalized := True,
             typeAnalysisFinalDiagnostics :=
               [new_Diagnostic Error ''x has no attribute y'' (Some ((0, 0), (0, 1)))],
             typeAnalysisLastPassDiagnostics := []\<rparr>,
          p_diagnosticVersion := 3\<rparr>)"
  using example_converged_not_required
  by (simp add: finalizeAnalysis_def)
     (simp add: example_converged_value example_analyzed_value)

lemma example_finalized_value:
  "example_finalized =
     example_converged\<lparr>p_analysisJob := (p_analysisJob example_converged)
            \<lparr>isTypeAnalysisFinalized := True,
             typeAnalysisFinalDiagnostics :=
               [new_Diagnostic Error ''x has no attribute y'' (Some ((0, 0), (0, 1)))],
             typeAnalysisLastPassDiagnostics := []\<rparr>,
          p_diagnosticVersion := 3\<rparr>"
  by (simp add: example_finalized_def example_finalizeAnalysis)

lemma example_reachable:
  "reachable example_file" "reachable example_parsed" "reachable example_analyzed"
  "reachable example_converged" "reachable example_finalized"
proof -
  show f: "reachable example_file" unfolding example_file_def by (rule r_new)
  show p: "reachable example_parsed" unfolding example_parsed_def by (rule r_parse[OF f])
  show a: "reachable example_analyzed"
    using r_doSemanticAnalysis[OF p example_doSemanticAnalysis]
    by (simp add: example_analyzed_value)
  show c: "reachable example_converged"
    using r_doTypeAnalysis[OF a example_doTypeAnalysis]
    by (simp add: example_converged_value)
  show "reachable example_finalized"
    using r_finalizeAnalysis[OF c example_finalizeAnalysis]
    by (simp add: example_finalized_value)
qed

lemma example_file_parse_required: "isParseRequired example_file"
  by (simp add: isParseRequired_def example_file_value initialAnalysisJob_def)

lemma example_parsed_not_required: "\<not> isParseRequired example_parsed"
  by (simp add: isParseRequired_def example_parsed_value)

lemma example_parse_returns:
  "fst (parse example_parser example_options example_file) = Inr True"
  using example_file_parse_required
  by (simp add: parse_def example_parseAttempt)

lemma example_analyzed_predicates:
  "\<not> isParseRequired example_analyzed"
  "\<not> isSemanticAnalysisRequired example_analyzed"
  "isTypeAnalysisRequired example_analyzed"
  "parseResults (p_analysisJob example_analyzed) =
     Some \<lparr>parseTree = 0, tokens = [], lines = [\<lparr>start = 0, length_r = 18\<rparr>]\<rparr>"
  "typeAnalysisLastPassDiagnostics (p_analysisJob example_analyzed) = []"
  "p_diagnosticVersion example_analyzed = 2"
  by (simp_all add: example_analyzed_value example_parsed_value isParseRequired_def
      isSemanticAnalysisRequired_def isTypeAnalysisRequired_def)

subsection \<open>Marking a file dirty or for reanalysis\<close>

text \<open>
  C7. In every state the pipeline can reach, \<open>markDirty\<close> makes a parse required;
  it increments the contents version, clears the finalized flag and resets the
  next phase to \<open>SemanticAnalysis\<close>. \<open>markReanalysisRequired\<close> leaves the value of
  \<open>isParseRequired\<close> and both contents versions as they are, makes semantic
  analysis required, sets the cleaning flag, clears the finalized flag, and
  leaves the stored parse results, the four diagnostics buckets and the
  diagnostic version unchanged.
\<close>

theorem markDirty_markReanalysisRequired:
  "(reachable s \<longrightarrow> isParseRequired (markDirty s)) \<and>
   p_fileContentsVersion (markDirty s) = p_fileContentsVersion s + 1 \<and>
   isTypeAnalysisFinalized (p_analysisJob (markDirty s)) = False \<and>
   nextPhaseToRun (p_analysisJob (markDirty s)) = SemanticAnalysis \<and>
   isParseRequired (markReanalysisRequired s) = isParseRequired s \<and>
   p_fileContentsVersion (markReanalysisRequired s) = p_fileContentsVersion s \<and>
   fileContentsVersion (p_analysisJob (markReanalysisRequired s)) =
     fileContentsVersion (p_analysisJob s) \<and>
   isSemanticAnalysisRequired (markReanalysisRequired s) \<and>
   parseTreeNeedsCleaning (p_analysisJob (markReanalysisRequired s)) = True \<and>
   isTypeAnalysisFinalized (p_analysisJob (markReanalysisRequired s)) = False \<and>
   parseResults (p_analysisJob (markReanalysisRequired s)) = parseResults (p_analysisJob s) \<and>
   parseDiagnostics (p_analysisJob (markReanalysisRequired s)) =
     parseDiagnostics (p_analysisJob s) \<and>
   semanticAnalysisDiagnostics (p_analysisJob (markReanalysisRequired s)) =
     semanticAnalysisDiagnostics (p_analysisJob s) \<and>
   typeAnalysisLastPassDiagnostics (p_analysisJob (markReanalysisRequired s)) =
     typeAnalysisLastPassDiagnostics (p_analysisJob s) \<and>
   typeAnalysisFinalDiagnostics (p_analysisJob (markReanalysisRequired s)) =
     typeAnalysisFinalDiagnostics (p_analysisJob s) \<and>
   p_diagnosticVersion (markReanalysisRequired s) = p_diagnosticVersion s"
proof -
  have "reachable s \<longrightarrow> isParseRequired (markDirty s)"
    using reachable_versions[of s] by (auto simp: isParseRequired_def markDirty_def)
  then show ?thesis
    by (simp add: markDirty_def markReanalysisRequired_def isParseRequired_def
        isSemanticAnalysisRequired_def)
qed

theorem markDirty_markReanalysisRequired_witness:
  "reachable example_parsed \<and> \<not> isParseRequired example_parsed \<and>
   isParseRequired (markDirty example_parsed) \<and>
   isSemanticAnalysisRequired (markReanalysisRequired example_parsed) \<and>
   \<not> isParseRequired (markReanalysisRequired example_parsed)"
proof -
  show ?thesis
    using example_reachable(2) markDirty_markReanalysisRequired [of example_parsed]
    by (simp add: isParseRequired_def markReanalysisRequired_def example_parsed_value)
qed

subsection \<open>Finalization\<close>

text \<open>
  C8. When type analysis is not required, \<open>finalizeAnalysis\<close> returns normally,
  sets the finalized flag, makes the finalized bucket equal to the previous
  last-pass bucket, empties the last-pass bucket and increments the diagnostic
  version by one; afterwards the two buckets do not both hold the same non-empty
  content.
\<close>

theorem finalizeAnalysis_moves:
  assumes "\<not> isTypeAnalysisRequired s"
  shows "\<exists>s'. finalizeAnalysis s = Inr s' \<and>
           isTypeAnalysisFinalized (p_analysisJob s') = True \<and>
           typeAnalysisFinalDiagnostics (p_analysisJob s') =
             typeAnalysisLastPassDiagnostics (p_analysisJob s) \<and>
           typeAnalysisLastPassDiagnostics (p_analysisJob s') = [] \<and>
           p_diagnosticVersion s' = p_diagnosticVersion s + 1 \<and>
           \<not> (typeAnalysisLastPassDiagnostics (p_analysisJob s') \<noteq> [] \<and>
              typeAnalysisFinalDiagnostics (p_analysisJob s') =
                typeAnalysisLastPassDiagnostics (p_analysisJob s'))"
  using assms by (simp add: finalizeAnalysis_def)

theorem finalizeAnalysis_moves_witness:
  "\<not> isTypeAnalysisRequired example_converged \<and>
   finalizeAnalysis example_converged = Inr example_finalized \<and>
   typeAnalysisFinalDiagnostics (p_analysisJob example_finalized) =
     [new_Diagnostic Error ''x has no attribute y'' (Some ((0, 0), (0, 1)))] \<and>
   typeAnalysisLastPassDiagnostics (p_analysisJob example_finalized) = []"
  using finalizeAnalysis_moves [of example_converged] example_converged_not_required
  by (simp add: example_finalizeAnalysis example_finalized_value)

subsection \<open>Faults during parsing\<close>

lemma parseCatch_converts:
  assumes "thrownMessage e = Inr m"
  shows "\<exists>s1. parseCatch c e s = Inr s1 \<and>
           parseResults (p_analysisJob s1) =
             Some \<lparr>parseTree = newModuleNode c \<lparr>start = 0, length_r = 0\<rparr>,
                   tokens = [], lines = []\<rparr> \<and>
           imports_j (p_analysisJob s1) = None \<and>
           builtinsImport (p_analysisJob s1) = None \<and>
           parseDiagnostics (p_analysisJob s1) =
             [new_Diagnostic Error ''An internal error occurred while parsing file'' None] \<and>
           p_fileContentsVersion s1 = p_fileContentsVersion s \<and>
           p_diagnosticVersion s1 = p_diagnosticVersion s"
  using assms by (simp add: parseCatch_def console_log_def Let_def addError_def)

lemma parseCatch_escapes:
  assumes "thrownMessage e = Inl t"
  shows "parseCatch c e s = Inl t"
  using assms by (simp add: parseCatch_def)

text \<open>
  A thrown value that has a message, an \<open>Error\<close> or a value \<open>JSON.stringify\<close>
  gives a text for, is converted: \<open>parse\<close> returns true with the placeholder
  parse results, no imports and the one synthetic diagnostic.
\<close>

lemma parse_converts_fault:
  assumes "isParseRequired s"
    and "parseAttempt c configOptions s = Inl (e, s')"
    and "thrownMessage e = Inr m"
  shows "fst (parse c configOptions s) = Inr True"
    and "parseResults (p_analysisJob (snd (parse c configOptions s))) =
           Some \<lparr>parseTree = newModuleNode c \<lparr>start = 0, length_r = 0\<rparr>,
                 tokens = [], lines = []\<rparr>"
    and "imports_j (p_analysisJob (snd (parse c configOptions s))) = None"
    and "getImports (snd (parse c configOptions s)) = []"
    and "builtinsImport (p_analysisJob (snd (parse c configOptions s))) = None"
    and "parseDiagnostics (p_analysisJob (snd (parse c configOptions s))) =
           [new_Diagnostic Error ''An internal error occurred while parsing file'' None]"
    and "\<not> isParseRequired (snd (parse c configOptions s))"
    and "nextPhaseToRun (p_analysisJob (snd (parse c configOptions s))) = SemanticAnalysis"
    and "parseTreeNeedsCleaning (p_analysisJob (snd (parse c configOptions s))) = False"
    and "p_diagnosticVersion (snd (parse c configOptions s)) = p_diagnosticVersion s + 1"
proof -
  obtain s1 where s1: "parseCatch c e s' = Inr s1"
    and f: "parseResults (p_analysisJob s1) =
             Some \<lparr>parseTree = newModuleNode c \<lparr>start = 0, length_r = 0\<rparr>,
                   tokens = [], lines = []\<rparr>"
      "imports_j (p_analysisJob s1) = None"
      "builtinsImport (p_analysisJob s1) = None"
      "parseDiagnostics (p_analysisJob s1) =
             [new_Diagnostic Error ''An internal error occurred while parsing file'' None]"
      "p_diagnosticVersion s1 = p_diagnosticVersion s'"
    using parseCatch_converts[OF assms(3), of c s'] by blast
  have p: "parse c configOptions s = (Inr True, parseEpilogue s1)"
    using assms(1,2) s1 by (simp add: parse_def)
  show "fst (parse c configOptions s) = Inr True" by (simp add: p)
  show "parseResults (p_analysisJob (snd (parse c configOptions s))) =
           Some \<lparr>parseTree = newModuleNode c \<lparr>start = 0, length_r = 0\<rparr>,
                 tokens = [], lines = []\<rparr>"
    by (simp add: p parseEpilogue_frame f)
  show "imports_j (p_analysisJob (snd (parse c configOptions s))) = None"
    by (simp add: p parseEpilogue_frame f)
  then show "getImports (snd (parse c configOptions s)) = []"
    by (simp add: getImports_def)
  show "builtinsImport (p_analysisJob (snd (parse c configOptions s))) = None"
    by (simp add: p parseEpilogue_frame f)
  show "parseDiagnostics (p_analysisJob (snd (parse c configOptions s))) =
           [new_Diagnostic Error ''An internal error occurred while parsing file'' None]"
    by (simp add: p parseEpilogue_frame f)
  show "\<not> isParseRequired (snd (parse c configOptions s))"
    by (simp add: p parseEpilogue_frame isParseRequired_def)
  show "nextPhaseToRun (p_analysisJob (snd (parse c configOptions s))) = SemanticAnalysis"
    by (simp add: p parseEpilogue_frame)
  show "parseTreeNeedsCleaning (p_analysisJob (snd (parse c configOptions s))) = False"
    by (simp add: p parseEpilogue_frame)
  show "p_diagnosticVersion (snd (parse c configOptions s)) = p_diagnosticVersion s + 1"
    using parseAttempt_Inl(2)[OF assms(2)] by (simp add: p parseEpilogue_frame f)
qed

text \<open>
  A thrown value for which \<open>JSON.stringify\<close> throws is not converted: what
  \<open>JSON.stringify\<close> throws leaves \<open>parse\<close>, and the object stays as the \<open>try\<close>
  block left it, with a parse still required.
\<close>

lemma parse_escapes:
  assumes "isParseRequired s"
    and "parseAttempt c configOptions s = Inl (e, s')"
    and "thrownMessage e = Inl t"
  shows "parse c configOptions s = (Inl t, s')"
    and "isParseRequired (snd (parse c configOptions s))"
    and "p_diagnosticVersion (snd (parse c configOptions s)) = p_diagnosticVersion s"
proof -
  show p: "parse c configOptions s = (Inl t, s')"
    using assms by (simp add: parse_def parseCatch_escapes)
  show "isParseRequired (snd (parse c configOptions s))"
    using assms(1) parseAttempt_Inl(1,6)[OF assms(2)] by (simp add: p isParseRequired_def)
  show "p_diagnosticVersion (snd (parse c configOptions s)) = p_diagnosticVersion s"
    using parseAttempt_Inl(2)[OF assms(2)] by (simp add: p)
qed

lemma parseAttempt_unfold:
  "parseAttempt c configOptions s =
     parseTry c configOptions (findExecEnvironment configOptions (p_filePath s))
       (makeParseOptions configOptions s) (fst (readContents c s)) (snd (readContents c s)) s"
  by (simp add: parseAttempt_def case_prod_beta Let_def)

text \<open>
  The \<open>try\<close> block throws when the parser throws, when the walker throws and
  when the resolver throws for the builtins module, for the typing module or
  for an explicit import.
\<close>

lemma resolveModuleImports_throws:
  assumes "k < length moduleImports"
    and "map (\<lambda>m. resolve \<lparr>leadingDots = leadingDots m, nameParts = nameParts m,
                               importedSymbols = importedSymbols m\<rparr>) (take k moduleImports) =
           map Inr results"
    and "resolve \<lparr>leadingDots = leadingDots (moduleImports ! k),
                   nameParts = nameParts (moduleImports ! k),
                   importedSymbols = importedSymbols (moduleImports ! k)\<rparr> = Inl e"
  shows "\<exists>tree'. resolveModuleImports resolve setInfo moduleImports acc tree = Inl (e, tree')"
  using assms
proof (induction moduleImports arbitrary: k acc tree results)
  case Nil
  then show ?case by simp
next
  case (Cons m ms)
  show ?case
  proof (cases k)
    case 0
    then show ?thesis using Cons.prems(3) by simp
  next
    case (Suc j)
    then obtain r rs where rs: "results = r # rs"
      using Cons.prems(2) by (cases results) auto
    have hd: "resolve \<lparr>leadingDots = leadingDots m, nameParts = nameParts m,
                        importedSymbols = importedSymbols m\<rparr> = Inr r"
      and tl: "map (\<lambda>m. resolve \<lparr>leadingDots = leadingDots m, nameParts = nameParts m,
                               importedSymbols = importedSymbols m\<rparr>) (take j ms) = map Inr rs"
      using Cons.prems(2) Suc rs by simp_all
    have "j < length ms" using Cons.prems(1) Suc by simp
    moreover have "resolve \<lparr>leadingDots = leadingDots (ms ! j),
                   nameParts = nameParts (ms ! j),
                   importedSymbols = importedSymbols (ms ! j)\<rparr> = Inl e"
      using Cons.prems(3) Suc by simp
    ultimately obtain tree' where
      "resolveModuleImports resolve setInfo ms (acc @ [r]) (setInfo (nameNode m) r tree) =
         Inl (e, tree')"
      using Cons.IH[OF _ tl] by blast
    then show ?thesis using hd by simp
  qed
qed

lemma resolveImports_throws:
  fixes c :: "'t ParseCollaborators"
  defines "resolver \<equiv> \<lambda>s configOptions env. resolveImport c (p_filePath s) configOptions env"
  shows "resolver s configOptions env
           \<lparr>leadingDots = 0, nameParts = [''builtins''], importedSymbols = None\<rparr> = Inl e \<Longrightarrow>
         \<exists>tree'. resolveImports c moduleImports configOptions env s tree = Inl (e, tree')"
    and "resolver s configOptions env
           \<lparr>leadingDots = 0, nameParts = [''builtins''], importedSymbols = None\<rparr> = Inr b \<Longrightarrow>
         resolver s configOptions env
           \<lparr>leadingDots = 0, nameParts = [''typing''], importedSymbols = None\<rparr> = Inl e \<Longrightarrow>
         \<exists>tree'. resolveImports c moduleImports configOptions env s tree = Inl (e, tree')"
    and "resolver s configOptions env
           \<lparr>leadingDots = 0, nameParts = [''builtins''], importedSymbols = None\<rparr> = Inr b \<Longrightarrow>
         resolver s configOptions env
           \<lparr>leadingDots = 0, nameParts = [''typing''], importedSymbols = None\<rparr> = Inr ty \<Longrightarrow>
         k < length moduleImports \<Longrightarrow>
         map (\<lambda>m. resolver s configOptions env
                     \<lparr>leadingDots = leadingDots m, nameParts = nameParts m,
                      importedSymbols = importedSymbols m\<rparr>) (take k moduleImports) =
           map Inr results \<Longrightarrow>
         resolver s configOptions env
           \<lparr>leadingDots = leadingDots (moduleImports ! k),
            nameParts = nameParts (moduleImports ! k),
            importedSymbols = importedSymbols (moduleImports ! k)\<rparr> = Inl e \<Longrightarrow>
         \<exists>tree'. resolveImports c moduleImports configOptions env s tree = Inl (e, tree')"
proof -
  show "resolver s configOptions env
           \<lparr>leadingDots = 0, nameParts = [''builtins''], importedSymbols = None\<rparr> = Inl e \<Longrightarrow>
         \<exists>tree'. resolveImports c moduleImports configOptions env s tree = Inl (e, tree')"
    unfolding resolver_def by (simp add: resolveImports_def)
  show "resolver s configOptions env
           \<lparr>leadingDots = 0, nameParts = [''builtins''], importedSymbols = None\<rparr> = Inr b \<Longrightarrow>
         resolver s configOptions env
           \<lparr>leadingDots = 0, nameParts = [''typing''], importedSymbols = None\<rparr> = Inl e \<Longrightarrow>
         \<exists>tree'. resolveImports c moduleImports configOptions env s tree = Inl (e, tree')"
    unfolding resolver_def by (simp add: resolveImports_def Let_def split: prod.splits)
  assume b: "resolver s configOptions env
           \<lparr>leadingDots = 0, nameParts = [''builtins''], importedSymbols = None\<rparr> = Inr b"
    and ty: "resolver s configOptions env
           \<lparr>leadingDots = 0, nameParts = [''typing''], importedSymbols = None\<rparr> = Inr ty"
    and k: "k < length moduleImports"
    and pre: "map (\<lambda>m. resolver s configOptions env
                     \<lparr>leadingDots = leadingDots m, nameParts = nameParts m,
                      importedSymbols = importedSymbols m\<rparr>) (take k moduleImports) =
           map Inr results"
    and thr: "resolver s configOptions env
           \<lparr>leadingDots = leadingDots (moduleImports ! k),
            nameParts = nameParts (moduleImports ! k),
            importedSymbols = importedSymbols (moduleImports ! k)\<rparr> = Inl e"
  define first where "first =
     (if length (resolvedPaths b) = 0 \<or> index0 (resolvedPaths b) \<noteq> Some (getFilePath s)
      then ([] @ [b], Some b) else ([], None))"
  define second where "second =
     (if length (resolvedPaths ty) = 0 \<or> index0 (resolvedPaths ty) \<noteq> Some (getFilePath s)
      then (fst first @ [ty], index0 (resolvedPaths ty)) else (fst first, None))"
  obtain tree' where t: "resolveModuleImports (resolver s configOptions env) (setImportInfo c)
           moduleImports (fst second) tree = Inl (e, tree')"
    using resolveModuleImports_throws[OF k pre thr] by blast
  have "resolveImports c moduleImports configOptions env s tree = Inl (e, tree')"
    unfolding resolveImports_def Let_def case_prod_beta
    using b ty t unfolding resolver_def first_def second_def
    by simp
  then show "\<exists>tree'. resolveImports c moduleImports configOptions env s tree = Inl (e, tree')"
    by blast
qed

lemma parseAttempt_throws:
  shows "parseSourceFile c (fst (readContents c s)) (makeParseOptions configOptions s)
           (snd (readContents c s)) = Inl e \<Longrightarrow>
           parseAttempt c configOptions s = Inl (e, s)"
    and "parseSourceFile c (fst (readContents c s)) (makeParseOptions configOptions s)
           (snd (readContents c s)) = Inr (parsed, sink1) \<Longrightarrow>
         postParseWalk c (lines parsed) sink1 (parseTree parsed) = Inl e \<Longrightarrow>
           parseAttempt c configOptions s = Inl (e, s)"
    and "parseSourceFile c (fst (readContents c s)) (makeParseOptions configOptions s)
           (snd (readContents c s)) = Inr (parsed, sink1) \<Longrightarrow>
         postParseWalk c (lines parsed) sink1 (parseTree parsed) =
           Inr (tree1, importedModules, sink2) \<Longrightarrow>
         \<not> internalTestMode configOptions \<or> testWalk c tree1 = None \<Longrightarrow>
         resolveImports c importedModules configOptions
           (findExecEnvironment configOptions (p_filePath s)) s tree1 = Inl (e, tree2) \<Longrightarrow>
           parseAttempt c configOptions s =
             Inl (e, s\<lparr>p_analysisJob := (p_analysisJob s)
                        \<lparr>parseResults := Some (parsed\<lparr>parseTree := tree2\<rparr>)\<rparr>\<rparr>)"
  by (auto simp: parseAttempt_unfold parseTry_def)

lemma example_failing_parser_fields:
  "readFileSync example_failing_parser = (\<lambda>path. Inr ''from ..pkg import b'')"
  "parseSourceFile example_failing_parser =
     (\<lambda>contents opts sink. Inl (ErrorInstance ''unexpected token''))"
  "newModuleNode example_failing_parser = (\<lambda>range. 0)"
  by (simp_all add: example_failing_parser_def example_parser_def)

lemma example_circular_parser_fields:
  "readFileSync example_circular_parser = (\<lambda>path. Inr ''from ..pkg import b'')"
  "parseSourceFile example_circular_parser = (\<lambda>contents opts sink. Inl example_circular)"
  by (simp_all add: example_circular_parser_def example_parser_def)

text \<open>The parser of the example throws an \<open>Error\<close>: the fault is converted.\<close>

lemma example_failing_parse:
  "fst (parse example_failing_parser example_options example_file) = Inr True"
  "\<not> isParseRequired (snd (parse example_failing_parser example_options example_file))"
  "parseResults (p_analysisJob
       (snd (parse example_failing_parser example_options example_file))) =
     Some \<lparr>parseTree = 0, tokens = [], lines = []\<rparr>"
  "getImports (snd (parse example_failing_parser example_options example_file)) = []"
  "parseDiagnostics (p_analysisJob
       (snd (parse example_failing_parser example_options example_file))) =
     [new_Diagnostic Error ''An internal error occurred while parsing file'' None]"
  "p_diagnosticVersion (snd (parse example_failing_parser example_options example_file)) = 1"
proof -
  have a: "parseAttempt example_failing_parser example_options example_file =
             Inl (ErrorInstance ''unexpected token'', example_file)"
    by (rule parseAttempt_throws(1)) (simp add: example_failing_parser_fields)
  have m: "thrownMessage (ErrorInstance ''unexpected token'') = Inr ''unexpected token''"
    by simp
  note c = parse_converts_fault[OF example_file_parse_required a m]
  show "fst (parse example_failing_parser example_options example_file) = Inr True"
    by (rule c(1))
  show "\<not> isParseRequired (snd (parse example_failing_parser example_options example_file))"
    by (rule c(7))
  show "parseResults (p_analysisJob
       (snd (parse example_failing_parser example_options example_file))) =
     Some \<lparr>parseTree = 0, tokens = [], lines = []\<rparr>"
    using c(2) by (simp add: example_failing_parser_fields)
  show "getImports (snd (parse example_failing_parser example_options example_file)) = []"
    by (rule c(4))
  show "parseDiagnostics (p_analysisJob
       (snd (parse example_failing_parser example_options example_file))) =
     [new_Diagnostic Error ''An internal error occurred while parsing file'' None]"
    by (rule c(6))
  show "p_diagnosticVersion (snd (parse example_failing_parser example_options example_file)) = 1"
    using c(10) by (simp add: example_file_value)
qed

text \<open>
  C2. Not every exception is converted. Here the parser throws an object that
  refers to itself. The \<open>catch\<close> block of \<open>parse\<close> starts with
  \<open>JSON.stringify(e)\<close>, which throws a \<open>TypeError\<close> for it; the \<open>TypeError\<close>
  leaves \<open>parse\<close>, and the file is as before the call: a parse is still
  required, there are no parse results and no synthetic diagnostic, and the
  diagnostic version is unchanged.
\<close>

theorem parse_unserialisable_escapes:
  "isParseRequired example_file \<and>
   parseSourceFile example_circular_parser
     (fst (readContents example_circular_parser example_file))
     (makeParseOptions example_options example_file)
     (snd (readContents example_circular_parser example_file)) =
     Inl (Unserialisable (ErrorInstance ''Converting circular structure to JSON'')) \<and>
   parse example_circular_parser example_options example_file =
     (Inl (ErrorInstance ''Converting circular structure to JSON''), example_file) \<and>
   isParseRequired (snd (parse example_circular_parser example_options example_file)) \<and>
   parseResults (p_analysisJob
     (snd (parse example_circular_parser example_options example_file))) = None \<and>
   parseDiagnostics (p_analysisJob
     (snd (parse example_circular_parser example_options example_file))) = [] \<and>
   p_diagnosticVersion (snd (parse example_circular_parser example_options example_file)) = 0"
proof -
  have thrown: "parseSourceFile example_circular_parser
     (fst (readContents example_circular_parser example_file))
     (makeParseOptions example_options example_file)
     (snd (readContents example_circular_parser example_file)) =
     Inl (Unserialisable (ErrorInstance ''Converting circular structure to JSON''))"
    by (simp add: example_circular_parser_fields example_circular_def)
  have m: "thrownMessage
      (Unserialisable (ErrorInstance ''Converting circular structure to JSON'')) =
      Inl (ErrorInstance ''Converting circular structure to JSON'')"
    by simp
  have p: "parse example_circular_parser example_options example_file =
     (Inl (ErrorInstance ''Converting circular structure to JSON''), example_file)"
    by (rule parse_escapes(1)[OF example_file_parse_required
          parseAttempt_throws(1)[OF thrown] m])
  show ?thesis
    using example_file_parse_required thrown p
    by (simp add: example_file_value initialAnalysisJob_def)
qed

subsection \<open>Faults during type analysis\<close>

text \<open>
  A type analyzer that throws a value with a message: the fault is converted,
  the file is marked as complete and the loop of a coordinator ends.
\<close>

lemma doTypeAnalysis_converts_fault:
  assumes "\<not> isParseRequired s"
    and "\<not> isSemanticAnalysisRequired s"
    and "isTypeAnalysisRequired s"
    and "parseResults (p_analysisJob s) = Some parsed"
    and "buildFileInfo configOptions (Some importMap) None s = Inr fileInfo"
    and "typeAnalyze c (parseTree parsed) fileInfo (typeAnalysisPassNumber (p_analysisJob s)) =
           ConstructorThrows e \<or>
         typeAnalyze c (parseTree parsed) fileInfo (typeAnalysisPassNumber (p_analysisJob s)) =
           AnalyzeThrows tree e"
    and "thrownMessage e = Inr m"
  shows "\<exists>s'. doTypeAnalysis c configOptions importMap s = Inr s' \<and>
           typeAnalysisLastPassDiagnostics (p_analysisJob s') =
             [new_Diagnostic Error
                ''An internal error occurred while performing type analysis'' None] \<and>
           isTypeAnalysisPassNeeded (p_analysisJob s') = False \<and>
           \<not> isTypeAnalysisRequired s' \<and>
           while_option isTypeAnalysisRequired
             (\<lambda>x. case doTypeAnalysis c configOptions importMap x of
                     Inr x' \<Rightarrow> x' | Inl a \<Rightarrow> x) s = Some s'"
proof -
  have phase: "nextPhaseToRun (p_analysisJob s) = TypeAnalysis"
    using assms(1,2)
    by (cases "nextPhaseToRun (p_analysisJob s)") (auto simp: isSemanticAnalysisRequired_def)
  define pre where "pre = (if typeAnalyze c (parseTree parsed) fileInfo
       (typeAnalysisPassNumber (p_analysisJob s)) = ConstructorThrows e then s
     else (setParseTree tree s)\<lparr>p_analysisJob := (p_analysisJob (setParseTree tree s))
            \<lparr>typeAnalysisPassNumber :=
               typeAnalysisPassNumber (p_analysisJob (setParseTree tree s)) + 1\<rparr>\<rparr>)"
  obtain s' where caught: "typeCatch e pre = Inr s'"
    using assms(7) by (simp add: typeCatch_def Let_def)
  have run: "doTypeAnalysis c configOptions importMap s = Inr s'"
    using assms(1-6) phase caught unfolding doTypeAnalysis_def pre_def
    by (auto simp: Let_def)
  have same: "p_fileContentsVersion pre = p_fileContentsVersion s"
    "fileContentsVersion (p_analysisJob pre) = fileContentsVersion (p_analysisJob s)"
    "nextPhaseToRun (p_analysisJob pre) = nextPhaseToRun (p_analysisJob s)"
    by (simp_all add: pre_def setParseTree_frame)
  have notreq: "\<not> isTypeAnalysisRequired s'"
    using assms(1,2) phase same typeCatch_frame(1,4,6,7)[OF caught]
    by (simp add: isTypeAnalysisRequired_def isSemanticAnalysisRequired_def isParseRequired_def)
  have loop: "while_option isTypeAnalysisRequired
             (\<lambda>x. case doTypeAnalysis c configOptions importMap x of
                     Inr x' \<Rightarrow> x' | Inl a \<Rightarrow> x) s = Some s'"
    using assms(3) notreq run
    by (subst while_option_unfold, simp, subst while_option_unfold, simp)
  show ?thesis
    using run notreq loop typeCatch_frame(7,8)[OF caught] by simp
qed

text \<open>The type analyzer of the example throws an \<open>Error\<close>: the fault is converted.\<close>

lemma example_failing_doTypeAnalysis:
  "\<not> isl (doTypeAnalysis example_failing_analyzers example_options Map.empty
            example_analyzed)"
  "\<not> isTypeAnalysisRequired
       (projr (doTypeAnalysis example_failing_analyzers example_options Map.empty
                 example_analyzed))"
  "typeAnalysisLastPassDiagnostics (p_analysisJob
       (projr (doTypeAnalysis example_failing_analyzers example_options Map.empty
                 example_analyzed))) =
     [new_Diagnostic Error ''An internal error occurred while performing type analysis'' None]"
proof -
  obtain fileInfo where fi:
    "buildFileInfo example_options (Some Map.empty) None example_analyzed = Inr fileInfo"
    by (simp add: buildFileInfo_def example_analyzed_predicates)
  have thrown:
    "typeAnalyze example_failing_analyzers
       (parseTree \<lparr>parseTree = 0, tokens = [], lines = [\<lparr>start = 0, length_r = 18\<rparr>]\<rparr>)
       fileInfo (typeAnalysisPassNumber (p_analysisJob example_analyzed)) =
       ConstructorThrows (ErrorInstance ''stack overflow'') \<or>
     typeAnalyze example_failing_analyzers
       (parseTree \<lparr>parseTree = 0, tokens = [], lines = [\<lparr>start = 0, length_r = 18\<rparr>]\<rparr>)
       fileInfo (typeAnalysisPassNumber (p_analysisJob example_analyzed)) =
       AnalyzeThrows 0 (ErrorInstance ''stack overflow'')"
    by (simp add: example_failing_analyzers_fields)
  have m: "thrownMessage (ErrorInstance ''stack overflow'') = Inr ''stack overflow''"
    by simp
  from doTypeAnalysis_converts_fault [OF example_analyzed_predicates(1,2,3,4) fi thrown m]
  obtain s' where s': "doTypeAnalysis example_failing_analyzers example_options Map.empty
      example_analyzed = Inr s'"
    "typeAnalysisLastPassDiagnostics (p_analysisJob s') =
       [new_Diagnostic Error ''An internal error occurred while performing type analysis'' None]"
    "\<not> isTypeAnalysisRequired s'"
    by auto
  show "\<not> isl (doTypeAnalysis example_failing_analyzers example_options Map.empty
            example_analyzed)"
    by (simp add: s'(1))
  show "\<not> isTypeAnalysisRequired
       (projr (doTypeAnalysis example_failing_analyzers example_options Map.empty
                 example_analyzed))"
    by (simp add: s'(1,3))
  show "typeAnalysisLastPassDiagnostics (p_analysisJob
       (projr (doTypeAnalysis example_failing_analyzers example_options Map.empty
                 example_analyzed))) =
     [new_Diagnostic Error ''An internal error occurred while performing type analysis'' None]"
    by (simp add: s'(1,2))
qed

text \<open>
  A type analyzer that throws a value for which \<open>JSON.stringify\<close> throws: what
  \<open>JSON.stringify\<close> throws leaves \<open>doTypeAnalysis\<close>, the file is not marked as
  complete and type analysis stays required.
\<close>

lemma doTypeAnalysis_escapes:
  assumes "\<not> isParseRequired s"
    and "\<not> isSemanticAnalysisRequired s"
    and "isTypeAnalysisRequired s"
    and "parseResults (p_analysisJob s) = Some parsed"
    and "buildFileInfo configOptions (Some importMap) None s = Inr fileInfo"
    and "typeAnalyze c (parseTree parsed) fileInfo (typeAnalysisPassNumber (p_analysisJob s)) =
           ConstructorThrows e \<or>
         typeAnalyze c (parseTree parsed) fileInfo (typeAnalysisPassNumber (p_analysisJob s)) =
           AnalyzeThrows tree e"
    and "thrownMessage e = Inl t"
  shows "\<exists>s'. doTypeAnalysis c configOptions importMap s = Inl (Escaped t s') \<and>
           typeAnalysisLastPassDiagnostics (p_analysisJob s') =
             typeAnalysisLastPassDiagnostics (p_analysisJob s) \<and>
           isTypeAnalysisPassNeeded (p_analysisJob s') =
             isTypeAnalysisPassNeeded (p_analysisJob s) \<and>
           isTypeAnalysisRequired s'"
proof -
  have phase: "nextPhaseToRun (p_analysisJob s) = TypeAnalysis"
    using assms(1,2)
    by (cases "nextPhaseToRun (p_analysisJob s)") (auto simp: isSemanticAnalysisRequired_def)
  define pre where "pre = (if typeAnalyze c (parseTree parsed) fileInfo
       (typeAnalysisPassNumber (p_analysisJob s)) = ConstructorThrows e then s
     else (setParseTree tree s)\<lparr>p_analysisJob := (p_analysisJob (setParseTree tree s))
            \<lparr>typeAnalysisPassNumber :=
               typeAnalysisPassNumber (p_analysisJob (setParseTree tree s)) + 1\<rparr>\<rparr>)"
  have caught: "typeCatch e pre = Inl (Escaped t pre)"
    using assms(7) by (simp add: typeCatch_def)
  have run: "doTypeAnalysis c configOptions importMap s = Inl (Escaped t pre)"
    using assms(1-6) phase caught unfolding doTypeAnalysis_def pre_def
    by (auto simp: Let_def)
  have same: "p_fileContentsVersion pre = p_fileContentsVersion s"
    "fileContentsVersion (p_analysisJob pre) = fileContentsVersion (p_analysisJob s)"
    "nextPhaseToRun (p_analysisJob pre) = nextPhaseToRun (p_analysisJob s)"
    "isTypeAnalysisPassNeeded (p_analysisJob pre) = isTypeAnalysisPassNeeded (p_analysisJob s)"
    "typeAnalysisLastPassDiagnostics (p_analysisJob pre) =
       typeAnalysisLastPassDiagnostics (p_analysisJob s)"
    by (simp_all add: pre_def setParseTree_def)
  have req: "isTypeAnalysisRequired pre"
    using assms(1,2,3) same
    by (simp add: isTypeAnalysisRequired_def isSemanticAnalysisRequired_def isParseRequired_def)
  show ?thesis
    using run req same by simp
qed

lemma example_circular_analyzers_fields:
  "typeAnalyze example_circular_analyzers =
     (\<lambda>tree info passNumber. AnalyzeThrows tree example_circular)"
  by (simp add: example_circular_analyzers_def example_analyzers_def)

text \<open>
  C3. With the preconditions of \<open>doTypeAnalysis\<close> satisfied, a type analyzer
  that throws the object that refers to itself is not caught for good: the
  \<open>TypeError\<close> of \<open>JSON.stringify(e)\<close> leaves \<open>doTypeAnalysis\<close> before the file
  is marked as complete. The pass number has been incremented,
  \<open>isTypeAnalysisPassNeeded\<close> is still true, the last-pass bucket is still
  empty and type analysis is still required.
\<close>

theorem doTypeAnalysis_unserialisable_escapes:
  "\<not> isParseRequired example_analyzed \<and>
   \<not> isSemanticAnalysisRequired example_analyzed \<and>
   isTypeAnalysisRequired example_analyzed \<and>
   doTypeAnalysis example_circular_analyzers example_options Map.empty example_analyzed =
     Inl (Escaped (ErrorInstance ''Converting circular structure to JSON'')
            (example_analyzed\<lparr>p_analysisJob := (p_analysisJob example_analyzed)
               \<lparr>typeAnalysisPassNumber := 2\<rparr>\<rparr>)) \<and>
   isTypeAnalysisPassNeeded (p_analysisJob
     (example_analyzed\<lparr>p_analysisJob := (p_analysisJob example_analyzed)
        \<lparr>typeAnalysisPassNumber := 2\<rparr>\<rparr>)) = True \<and>
   typeAnalysisLastPassDiagnostics (p_analysisJob
     (example_analyzed\<lparr>p_analysisJob := (p_analysisJob example_analyzed)
        \<lparr>typeAnalysisPassNumber := 2\<rparr>\<rparr>)) = [] \<and>
   isTypeAnalysisRequired
     (example_analyzed\<lparr>p_analysisJob := (p_analysisJob example_analyzed)
        \<lparr>typeAnalysisPassNumber := 2\<rparr>\<rparr>)"
proof -
  have run: "doTypeAnalysis example_circular_analyzers example_options Map.empty
      example_analyzed =
     Inl (Escaped (ErrorInstance ''Converting circular structure to JSON'')
            (example_analyzed\<lparr>p_analysisJob := (p_analysisJob example_analyzed)
               \<lparr>typeAnalysisPassNumber := 2\<rparr>\<rparr>))"
    by (simp add: doTypeAnalysis_def isParseRequired_def isSemanticAnalysisRequired_def
      isTypeAnalysisRequired_def typeCatch_def example_circular_def
      buildFileInfo_def setParseTree_def example_analyzed_value
      example_circular_analyzers_fields example_parsed_value Let_def)
  show ?thesis
    using example_analyzed_predicates(1,2,3) run
    by (simp add: example_analyzed_value example_parsed_value isParseRequired_def
      isSemanticAnalysisRequired_def isTypeAnalysisRequired_def)
qed

subsection \<open>The diagnostic version\<close>

text \<open>
  The claim C4 as written, that \<open>doTypeAnalysis\<close> leaves the diagnostic version
  strictly greater than before, fails on the example: the pass replaces the
  last-pass bucket and the version stays at 2.
\<close>

theorem diagnosticVersion_doTypeAnalysis_counterexample:
  "doTypeAnalysis example_analyzers example_options Map.empty example_analyzed =
     Inr example_converged \<and>
   typeAnalysisLastPassDiagnostics (p_analysisJob example_analyzed) = [] \<and>
   typeAnalysisLastPassDiagnostics (p_analysisJob example_converged) =
     [new_Diagnostic Error ''x has no attribute y'' (Some ((0, 0), (0, 1)))] \<and>
   p_diagnosticVersion example_analyzed = 2 \<and>
   p_diagnosticVersion example_converged = 2 \<and>
   \<not> p_diagnosticVersion example_analyzed < p_diagnosticVersion example_converged"
  by (simp add: example_doTypeAnalysis example_converged_value example_analyzed_predicates)

text \<open>
  C4, amended. A parse that runs and returns, \<open>doSemanticAnalysis\<close> and
  \<open>finalizeAnalysis\<close> each leave the diagnostic version exactly one greater than
  before, so strictly greater, whether the phase succeeded or its fault was
  handled. \<open>doTypeAnalysis\<close> leaves the diagnostic version unchanged, successful
  or faulted: it writes the last-pass bucket only, and not the three buckets
  that \<open>getDiagnostics\<close> reads. \<open>getDiagnostics\<close> returns \<open>undefined\<close> whenever the
  previous version handed to it equals the current diagnostic version.
\<close>

theorem diagnosticVersion_changes:
  "(fst (parse pc configOptions s) = Inr True \<longrightarrow>
      p_diagnosticVersion (snd (parse pc configOptions s)) = p_diagnosticVersion s + 1 \<and>
      p_diagnosticVersion s < p_diagnosticVersion (snd (parse pc configOptions s))) \<and>
   (doSemanticAnalysis ac configOptions builtinsScope s = Inr s1 \<longrightarrow>
      p_diagnosticVersion s1 = p_diagnosticVersion s + 1 \<and>
      p_diagnosticVersion s < p_diagnosticVersion s1) \<and>
   (doTypeAnalysis ac configOptions importMap s = Inr s2 \<longrightarrow>
      p_diagnosticVersion s2 = p_diagnosticVersion s \<and>
      parseDiagnostics (p_analysisJob s2) = parseDiagnostics (p_analysisJob s) \<and>
      semanticAnalysisDiagnostics (p_analysisJob s2) =
        semanticAnalysisDiagnostics (p_analysisJob s) \<and>
      typeAnalysisFinalDiagnostics (p_analysisJob s2) =
        typeAnalysisFinalDiagnostics (p_analysisJob s)) \<and>
   (finalizeAnalysis s = Inr s3 \<longrightarrow>
      p_diagnosticVersion s3 = p_diagnosticVersion s + 1 \<and>
      p_diagnosticVersion s < p_diagnosticVersion s3) \<and>
   getDiagnostics options (Some (p_diagnosticVersion s)) s = None \<and>
   getDiagnostics options (Some (getDiagnosticVersion s)) s = None"
proof -
  have t: "doTypeAnalysis ac configOptions importMap s = Inr s2 \<longrightarrow>
      parseDiagnostics (p_analysisJob s2) = parseDiagnostics (p_analysisJob s) \<and>
      semanticAnalysisDiagnostics (p_analysisJob s2) =
        semanticAnalysisDiagnostics (p_analysisJob s) \<and>
      typeAnalysisFinalDiagnostics (p_analysisJob s2) =
        typeAnalysisFinalDiagnostics (p_analysisJob s)"
    unfolding doTypeAnalysis_def
    by (auto simp: setParseTree_def typeCatch_def console_log_def Let_def
        split: option.splits if_splits sum.splits TypeAnalyzerRun.splits)
  show ?thesis
    using t
    by (simp add: parse_returned_frame doSemanticAnalysis_frame doTypeAnalysis_frame
        finalizeAnalysis_frame getDiagnostics_def getDiagnosticVersion_def)
qed

theorem diagnosticVersion_changes_witness:
  "fst (parse example_parser example_options example_file) = Inr True \<and>
   p_diagnosticVersion example_file = 0 \<and>
   p_diagnosticVersion (snd (parse example_parser example_options example_file)) = 1 \<and>
   doSemanticAnalysis example_analyzers example_options None example_parsed =
     Inr example_analyzed \<and>
   p_diagnosticVersion example_parsed = 1 \<and>
   p_diagnosticVersion example_analyzed = 2 \<and>
   doTypeAnalysis example_analyzers example_options Map.empty example_analyzed =
     Inr example_converged \<and>
   p_diagnosticVersion example_converged = 2 \<and>
   finalizeAnalysis example_converged = Inr example_finalized \<and>
   p_diagnosticVersion example_finalized = 3 \<and>
   getDiagnostics example_options (Some 3) example_finalized = None"
proof -
  have v0: "p_diagnosticVersion example_file = 0"
    by (simp add: example_file_value)
  have sem_run: "doSemanticAnalysis example_analyzers example_options None example_parsed =
     Inr example_analyzed"
    by (simp add: example_doSemanticAnalysis example_analyzed_value)
  have ty_run: "doTypeAnalysis example_analyzers example_options Map.empty example_analyzed =
     Inr example_converged"
    by (simp add: example_doTypeAnalysis example_converged_value)
  have fin_run: "finalizeAnalysis example_converged = Inr example_finalized"
    by (simp add: example_finalizeAnalysis example_finalized_value)
  have v1: "p_diagnosticVersion (snd (parse example_parser example_options example_file)) = 1"
    using diagnosticVersion_changes [where s = example_file and pc = example_parser
        and configOptions = example_options]
      example_parse_returns v0 by simp
  then have v1': "p_diagnosticVersion example_parsed = 1"
    by (simp add: example_parsed_def)
  have v2: "p_diagnosticVersion example_analyzed = 2"
    using diagnosticVersion_changes [where s = example_parsed and ac = example_analyzers
        and configOptions = example_options and builtinsScope = None
        and ?s1.0 = example_analyzed] sem_run v1' by simp
  have v2': "p_diagnosticVersion example_converged = 2"
    using diagnosticVersion_changes [where s = example_analyzed and ac = example_analyzers
        and configOptions = example_options and importMap = Map.empty
        and ?s2.0 = example_converged] ty_run v2 by simp
  have v3: "p_diagnosticVersion example_finalized = 3"
    using diagnosticVersion_changes [where s = example_converged
        and ?s3.0 = example_finalized]
      fin_run v2' by simp
  have g: "getDiagnostics example_options (Some 3) example_finalized = None"
    using diagnosticVersion_changes [where s = example_finalized
        and options = example_options]
      v3 by simp
  show ?thesis
    using example_parse_returns v0 v1 sem_run v1' v2 ty_run v2' fin_run v3 g by simp
qed

subsection \<open>Circular dependencies\<close>

lemma reachable_fold_addCircularDependency:
  "reachable s \<Longrightarrow> reachable (fold addCircularDependency ds s)"
  by (induction ds arbitrary: s) (auto intro: r_addCircularDependency)

text \<open>
  C6. Whatever sequence of \<open>addCircularDependency\<close> calls is made in a reachable
  state, the stored list has at most 4 entries and no two stored entries are
  equal under \<open>isEqual\<close>. A dependency equal to a stored one is not added, with
  4 entries stored every call leaves the state as it is, and otherwise the new
  dependency is appended.
\<close>

theorem addCircularDependency_bounded:
  assumes "reachable s"
  shows "length (circularDependencies (p_analysisJob (fold addCircularDependency ds s)))
           \<le> MaxImportCyclesPerFile \<and>
         MaxImportCyclesPerFile = 4 \<and>
         distinct (map getPaths
           (circularDependencies (p_analysisJob (fold addCircularDependency ds s)))) \<and>
         (\<forall>i j. i < j \<and>
            j < length (circularDependencies
                  (p_analysisJob (fold addCircularDependency ds s))) \<longrightarrow>
            \<not> isEqual
              (circularDependencies (p_analysisJob (fold addCircularDependency ds s)) ! i)
              (circularDependencies (p_analysisJob (fold addCircularDependency ds s)) ! j)) \<and>
         (list_ex (\<lambda>dep. isEqual dep d) (circularDependencies (p_analysisJob s)) \<longrightarrow>
            addCircularDependency d s = s) \<and>
         (length (circularDependencies (p_analysisJob s)) = 4 \<longrightarrow>
            addCircularDependency d s = s) \<and>
         (length (circularDependencies (p_analysisJob s)) < 4 \<and>
          \<not> list_ex (\<lambda>dep. isEqual dep d) (circularDependencies (p_analysisJob s)) \<longrightarrow>
            circularDependencies (p_analysisJob (addCircularDependency d s)) =
              circularDependencies (p_analysisJob s) @ [d])"
proof -
  define stored where
    "stored = circularDependencies (p_analysisJob (fold addCircularDependency ds s))"
  have "reachable (fold addCircularDependency ds s)"
    using assms by (rule reachable_fold_addCircularDependency)
  then have inv: "length stored \<le> MaxImportCyclesPerFile \<and> distinct (map getPaths stored)"
    unfolding stored_def by (rule reachable_circularDependencies)
  then have pairwise: "\<forall>i j. i < j \<and> j < length stored \<longrightarrow>
      \<not> isEqual (stored ! i) (stored ! j)"
    by (auto simp: isEqual_def getPaths_def distinct_conv_nth)
  have step: "(list_ex (\<lambda>dep. isEqual dep d) (circularDependencies (p_analysisJob s)) \<longrightarrow>
            addCircularDependency d s = s) \<and>
         (length (circularDependencies (p_analysisJob s)) = 4 \<longrightarrow>
            addCircularDependency d s = s) \<and>
         (length (circularDependencies (p_analysisJob s)) < 4 \<and>
          \<not> list_ex (\<lambda>dep. isEqual dep d) (circularDependencies (p_analysisJob s)) \<longrightarrow>
            circularDependencies (p_analysisJob (addCircularDependency d s)) =
              circularDependencies (p_analysisJob s) @ [d])"
    by (simp add: addCircularDependency_def MaxImportCyclesPerFile_def)
  show ?thesis
    using inv pairwise step unfolding stored_def
    by (simp add: MaxImportCyclesPerFile_def)
qed

lemma example_fold_cycles:
  "circularDependencies (p_analysisJob (fold addCircularDependency example_cycles example_file)) =
     [\<lparr>paths = [''/src/a.py'', ''/src/b.py'']\<rparr>,
      \<lparr>paths = [''/src/a.py'', ''/src/c.py'']\<rparr>,
      \<lparr>paths = [''/src/a.py'', ''/src/d.py'']\<rparr>,
      \<lparr>paths = [''/src/a.py'', ''/src/e.py'']\<rparr>]"
  by (simp add: example_cycles_def example_file_value initialAnalysisJob_def
      addCircularDependency_def MaxImportCyclesPerFile_def isEqual_def)

theorem addCircularDependency_bounded_witness:
  "reachable example_file \<and>
   length example_cycles = 6 \<and>
   circularDependencies (p_analysisJob (fold addCircularDependency example_cycles example_file)) =
     [\<lparr>paths = [''/src/a.py'', ''/src/b.py'']\<rparr>,
      \<lparr>paths = [''/src/a.py'', ''/src/c.py'']\<rparr>,
      \<lparr>paths = [''/src/a.py'', ''/src/d.py'']\<rparr>,
      \<lparr>paths = [''/src/a.py'', ''/src/e.py'']\<rparr>] \<and>
   length (circularDependencies
     (p_analysisJob (fold addCircularDependency example_cycles example_file))) \<le> 4 \<and>
   addCircularDependency \<lparr>paths = [''/src/a.py'', ''/src/g.py'']\<rparr>
     (fold addCircularDependency example_cycles example_file) =
     fold addCircularDependency example_cycles example_file"
  using addCircularDependency_bounded [OF example_reachable(1), of example_cycles]
    addCircularDependency_bounded [OF reachable_fold_addCircularDependency
      [OF example_reachable(1), of example_cycles], of "[]"
      "\<lparr>paths = [''/src/a.py'', ''/src/g.py'']\<rparr>"]
    example_reachable(1)
  by (simp add: example_fold_cycles) (simp add: example_cycles_def)

subsection \<open>The client version\<close>

text \<open>
  C10. \<open>setClientVersion\<close> with a version that is not null increments the
  contents version, through \<open>markDirty\<close>, exactly when an in-memory buffer is
  present and differs from the new contents; in a reachable state a parse is
  required afterwards. Without a buffer, or with equal contents, only the client
  version and the buffer change: so the first such call after construction, and
  the first after a call with null, never mark the file dirty. With null the
  buffer is discarded and the file is not marked dirty.
\<close>

theorem setClientVersion_marks_dirty:
  "p_fileContentsVersion (setClientVersion (Some v) contents s) =
     (if p_fileContents s \<noteq> None \<and> p_fileContents s \<noteq> Some contents
      then p_fileContentsVersion s + 1 else p_fileContentsVersion s) \<and>
   (p_fileContents s \<noteq> None \<and> p_fileContents s \<noteq> Some contents \<longrightarrow>
      setClientVersion (Some v) contents s =
        (markDirty s)\<lparr>p_clientVersion := Some v, p_fileContents := Some contents\<rparr>) \<and>
   (reachable s \<and> p_fileContents s \<noteq> None \<and> p_fileContents s \<noteq> Some contents \<longrightarrow>
      isParseRequired (setClientVersion (Some v) contents s)) \<and>
   (p_fileContents s = None \<or> p_fileContents s = Some contents \<longrightarrow>
      setClientVersion (Some v) contents s =
        s\<lparr>p_clientVersion := Some v, p_fileContents := Some contents\<rparr> \<and>
      isParseRequired (setClientVersion (Some v) contents s) = isParseRequired s) \<and>
   setClientVersion (Some v) contents (new_SourceFile getFileName filePath isTypeshedStubFile) =
     (new_SourceFile getFileName filePath isTypeshedStubFile)
       \<lparr>p_clientVersion := Some v, p_fileContents := Some contents\<rparr> \<and>
   setClientVersion (Some v) contents (setClientVersion None contents0 s) =
     s\<lparr>p_clientVersion := Some v, p_fileContents := Some contents\<rparr> \<and>
   setClientVersion None contents s = s\<lparr>p_clientVersion := None, p_fileContents := None\<rparr> \<and>
   p_fileContentsVersion (setClientVersion None contents s) = p_fileContentsVersion s \<and>
   isParseRequired (setClientVersion None contents s) = isParseRequired s"
proof -
  have dirty: "reachable s \<and> p_fileContents s \<noteq> None \<and> p_fileContents s \<noteq> Some contents \<longrightarrow>
      isParseRequired (setClientVersion (Some v) contents s)"
    using reachable_versions[of s]
    by (auto simp: setClientVersion_def markDirty_def isParseRequired_def Let_def)
  have new: "setClientVersion (Some v) contents
      (new_SourceFile getFileName filePath isTypeshedStubFile) =
     (new_SourceFile getFileName filePath isTypeshedStubFile)
       \<lparr>p_clientVersion := Some v, p_fileContents := Some contents\<rparr>"
    by (simp add: setClientVersion_def new_SourceFile_def Let_def)
  have rest: "p_fileContentsVersion (setClientVersion (Some v) contents s) =
     (if p_fileContents s \<noteq> None \<and> p_fileContents s \<noteq> Some contents
      then p_fileContentsVersion s + 1 else p_fileContentsVersion s) \<and>
   (p_fileContents s \<noteq> None \<and> p_fileContents s \<noteq> Some contents \<longrightarrow>
      setClientVersion (Some v) contents s =
        (markDirty s)\<lparr>p_clientVersion := Some v, p_fileContents := Some contents\<rparr>) \<and>
   (p_fileContents s = None \<or> p_fileContents s = Some contents \<longrightarrow>
      setClientVersion (Some v) contents s =
        s\<lparr>p_clientVersion := Some v, p_fileContents := Some contents\<rparr> \<and>
      isParseRequired (setClientVersion (Some v) contents s) = isParseRequired s) \<and>
   setClientVersion (Some v) contents (setClientVersion None contents0 s) =
     s\<lparr>p_clientVersion := Some v, p_fileContents := Some contents\<rparr> \<and>
   setClientVersion None contents s = s\<lparr>p_clientVersion := None, p_fileContents := None\<rparr> \<and>
   p_fileContentsVersion (setClientVersion None contents s) = p_fileContentsVersion s \<and>
   isParseRequired (setClientVersion None contents s) = isParseRequired s"
    by (auto simp: setClientVersion_def markDirty_def isParseRequired_def Let_def)
  show ?thesis
    using dirty new rest by blast
qed

theorem setClientVersion_marks_dirty_witness:
  "reachable (setClientVersion (Some 1) ''x = 1'' example_parsed) \<and>
   p_fileContents example_parsed = None \<and>
   \<not> isParseRequired (setClientVersion (Some 1) ''x = 1'' example_parsed) \<and>
   p_fileContents (setClientVersion (Some 1) ''x = 1'' example_parsed) = Some ''x = 1'' \<and>
   isParseRequired
     (setClientVersion (Some 2) ''x = 2'' (setClientVersion (Some 1) ''x = 1'' example_parsed)) \<and>
   \<not> isParseRequired
     (setClientVersion (Some 2) ''x = 1'' (setClientVersion (Some 1) ''x = 1'' example_parsed)) \<and>
   \<not> isParseRequired (setClientVersion None ''x = 2'' example_parsed)"
proof -
  have r: "reachable (setClientVersion (Some 1) ''x = 1'' example_parsed)"
    by (rule r_setClientVersion[OF example_reachable(2)])
  have n: "p_fileContents example_parsed = None"
    by (simp add: example_parsed_value)
  have b: "p_fileContents (setClientVersion (Some 1) ''x = 1'' example_parsed) = Some ''x = 1''"
    by (simp add: setClientVersion_def Let_def)
  note inst = setClientVersion_marks_dirty [where getFileName = example_getFileName
      and filePath = "''/src/a.py''" and isTypeshedStubFile = False and ?contents0.0 = "''x = 0''"]
  have c1: "\<not> isParseRequired (setClientVersion (Some 1) ''x = 1'' example_parsed)"
    using inst [of 1 "''x = 1''" example_parsed] n example_parsed_not_required by blast
  have c2: "isParseRequired
     (setClientVersion (Some 2) ''x = 2'' (setClientVersion (Some 1) ''x = 1'' example_parsed))"
  proof -
    have ne: "p_fileContents (setClientVersion (Some 1) ''x = 1'' example_parsed) \<noteq> None \<and>
        p_fileContents (setClientVersion (Some 1) ''x = 1'' example_parsed) \<noteq> Some ''x = 2''"
      using b by simp
    show ?thesis
      using inst [of 2 "''x = 2''" "setClientVersion (Some 1) ''x = 1'' example_parsed"] r ne
      by blast
  qed
  have c3: "\<not> isParseRequired
     (setClientVersion (Some 2) ''x = 1'' (setClientVersion (Some 1) ''x = 1'' example_parsed))"
    using inst [of 2 "''x = 1''" "setClientVersion (Some 1) ''x = 1'' example_parsed"] b c1
    by blast
  have c4: "\<not> isParseRequired (setClientVersion None ''x = 2'' example_parsed)"
    using inst [of 2 "''x = 2''" example_parsed] example_parsed_not_required by blast
  show ?thesis
    using r n b c1 c2 c3 c4 by blast
qed

subsection \<open>Resolved imports\<close>

lemma resolveModuleImports_all:
  assumes "map (\<lambda>m. resolve \<lparr>leadingDots = leadingDots m, nameParts = nameParts m,
                               importedSymbols = importedSymbols m\<rparr>) moduleImports =
           map Inr results"
  shows "\<exists>tree'. resolveModuleImports resolve setInfo moduleImports acc tree =
           Inr (acc @ results, tree')"
  using assms
proof (induction moduleImports arbitrary: acc tree results)
  case Nil
  then show ?case by simp
next
  case (Cons m ms)
  then obtain r rs where rs: "results = r # rs"
    by (cases results) auto
  with Cons.prems have hd: "resolve \<lparr>leadingDots = leadingDots m, nameParts = nameParts m,
                               importedSymbols = importedSymbols m\<rparr> = Inr r"
    and tl: "map (\<lambda>m. resolve \<lparr>leadingDots = leadingDots m, nameParts = nameParts m,
                               importedSymbols = importedSymbols m\<rparr>) ms = map Inr rs"
    by simp_all
  from Cons.IH[OF tl, of "acc @ [r]" "setInfo (nameNode m) r tree"]
  show ?case using hd rs by simp
qed

lemma resolveImports_all:
  assumes "resolveImport c (p_filePath s) configOptions env
             \<lparr>leadingDots = 0, nameParts = [''builtins''], importedSymbols = None\<rparr> =
           Inr builtinsResult"
    and "resolveImport c (p_filePath s) configOptions env
             \<lparr>leadingDots = 0, nameParts = [''typing''], importedSymbols = None\<rparr> =
           Inr typingResult"
    and "map (\<lambda>m. resolveImport c (p_filePath s) configOptions env
                 \<lparr>leadingDots = leadingDots m, nameParts = nameParts m,
                  importedSymbols = importedSymbols m\<rparr>) moduleImports =
           map Inr results"
  shows "\<exists>tree'. resolveImports c moduleImports configOptions env s tree =
           Inr ((if index0 (resolvedPaths builtinsResult) = Some (p_filePath s)
                 then [] else [builtinsResult]) @
                (if index0 (resolvedPaths typingResult) = Some (p_filePath s)
                 then [] else [typingResult]) @ results,
                (if index0 (resolvedPaths builtinsResult) = Some (p_filePath s)
                 then None else Some builtinsResult),
                (if index0 (resolvedPaths typingResult) = Some (p_filePath s)
                 then None else index0 (resolvedPaths typingResult)),
                tree')"
proof -
  define acc where "acc = (if index0 (resolvedPaths builtinsResult) = Some (p_filePath s)
                 then [] else [builtinsResult]) @
                (if index0 (resolvedPaths typingResult) = Some (p_filePath s)
                 then [] else [typingResult])"
  from resolveModuleImports_all[OF assms(3), of "setImportInfo c" acc tree]
  obtain tree' where t: "resolveModuleImports
      (resolveImport c (p_filePath s) configOptions env) (setImportInfo c) moduleImports acc tree =
      Inr (acc @ results, tree')" by blast
  have e: "\<And>xs. (length xs = 0 \<or> index0 xs \<noteq> Some (p_filePath s)) =
             (index0 xs \<noteq> Some (p_filePath s))"
    by (case_tac xs) auto
  show ?thesis
    using t assms(1,2) unfolding resolveImports_def acc_def
    by (auto simp: Let_def getFilePath_def e)
qed

lemma parseAttempt_success:
  assumes "parseSourceFile c (fst (readContents c s)) (makeParseOptions configOptions s)
           (snd (readContents c s)) = Inr (parsed, sink1)"
    and "postParseWalk c (lines parsed) sink1 (parseTree parsed) =
           Inr (tree1, moduleImports, sink2)"
    and "internalTestMode configOptions \<longrightarrow> testWalk c tree1 = None"
    and "resolveImports c moduleImports configOptions
       (findExecEnvironment configOptions (p_filePath s)) s tree1 = Inr (imps, bi, tp, tree')"
  shows "parseAttempt c configOptions s =
      Inr (s\<lparr>p_analysisJob := (p_analysisJob s)
             \<lparr>parseResults := Some (parsed\<lparr>parseTree := tree'\<rparr>),
              imports_j := Some imps,
              builtinsImport := bi,
              typingModulePath := tp,
              parseDiagnostics := sink2\<rparr>\<rparr>)"
proof -
  have tw: "(if internalTestMode configOptions then testWalk c tree1 else None) = None"
    using assms(3) by simp
  show ?thesis
    unfolding parseAttempt_unfold parseTry_def
    by (simp only: assms(1,2,4) tw sum.case prod.case option.case)
qed

lemma parse_success_imports:
  assumes "isParseRequired s" and "parseAttempt c configOptions s = Inr s'"
  shows "getImports (snd (parse c configOptions s)) = getImports s'"
    and "fst (parse c configOptions s) = Inr True"
  using assms by (simp_all add: parse_def getImports_def parseEpilogue_def)

text \<open>
  C9. After a parse in which the parser, the walker, the test walker and every
  import resolution succeed, \<open>parse\<close> returns true and \<open>getImports\<close> is: the
  implicit builtins import unless its first resolved path is this file's path,
  then the implicit typing import unless its first resolved path is this file's
  path, then the result of each explicit import in the order the walker found
  them, each resolved from its leading dots, name parts and imported symbols.
  When the file is neither the builtins nor the typing module that is builtins,
  typing and the explicit imports; with one explicit import, three entries.
\<close>

theorem getImports_after_parse:
  assumes "isParseRequired s"
    and "parseSourceFile c (fst (readContents c s)) (makeParseOptions configOptions s)
           (snd (readContents c s)) = Inr (parsed, sink1)"
    and "postParseWalk c (lines parsed) sink1 (parseTree parsed) =
           Inr (tree1, moduleImports, sink2)"
    and "internalTestMode configOptions \<longrightarrow> testWalk c tree1 = None"
    and "resolveImport c (p_filePath s) configOptions
           (findExecEnvironment configOptions (p_filePath s))
           \<lparr>leadingDots = 0, nameParts = [''builtins''], importedSymbols = None\<rparr> =
         Inr builtinsResult"
    and "resolveImport c (p_filePath s) configOptions
           (findExecEnvironment configOptions (p_filePath s))
           \<lparr>leadingDots = 0, nameParts = [''typing''], importedSymbols = None\<rparr> =
         Inr typingResult"
    and "map (\<lambda>m. resolveImport c (p_filePath s) configOptions
                 (findExecEnvironment configOptions (p_filePath s))
                 \<lparr>leadingDots = leadingDots m, nameParts = nameParts m,
                  importedSymbols = importedSymbols m\<rparr>) moduleImports =
         map Inr explicitResults"
  shows "fst (parse c configOptions s) = Inr True \<and>
         getImports (snd (parse c configOptions s)) =
           (if index0 (resolvedPaths builtinsResult) = Some (getFilePath s)
            then [] else [builtinsResult]) @
           (if index0 (resolvedPaths typingResult) = Some (getFilePath s)
            then [] else [typingResult]) @ explicitResults \<and>
         length explicitResults = length moduleImports \<and>
         (index0 (resolvedPaths builtinsResult) \<noteq> Some (getFilePath s) \<and>
          index0 (resolvedPaths typingResult) \<noteq> Some (getFilePath s) \<longrightarrow>
            getImports (snd (parse c configOptions s)) =
              builtinsResult # typingResult # explicitResults)"
proof -
  define imps where "imps =
     (if index0 (resolvedPaths builtinsResult) = Some (p_filePath s)
      then [] else [builtinsResult]) @
     (if index0 (resolvedPaths typingResult) = Some (p_filePath s)
      then [] else [typingResult]) @ explicitResults"
  obtain bi tp tree' where res:
    "resolveImports c moduleImports configOptions
       (findExecEnvironment configOptions (p_filePath s)) s tree1 = Inr (imps, bi, tp, tree')"
    using resolveImports_all[OF assms(5,6,7)] unfolding imps_def by blast
  have "getImports (snd (parse c configOptions s)) = imps"
    using parse_success_imports(1)[OF assms(1) parseAttempt_success[OF assms(2,3,4) res]]
    by (simp add: getImports_def)
  moreover have "fst (parse c configOptions s) = Inr True"
    by (rule parse_success_imports(2)[OF assms(1) parseAttempt_success[OF assms(2,3,4) res]])
  moreover have "length explicitResults = length moduleImports"
    using arg_cong[OF assms(7), of length] by simp
  ultimately show ?thesis
    unfolding imps_def getFilePath_def by simp
qed

theorem getImports_after_parse_witness:
  "isParseRequired example_file \<and>
   fst (parse example_parser example_options example_file) = Inr True \<and>
   index0 [''/lib/builtins.pyi''] \<noteq> Some (getFilePath example_file) \<and>
   index0 [''/lib/typing.pyi''] \<noteq> Some (getFilePath example_file) \<and>
   getImports (snd (parse example_parser example_options example_file)) =
     [\<lparr>resolvedPaths = [''/lib/builtins.pyi'']\<rparr>,
      \<lparr>resolvedPaths = [''/lib/typing.pyi'']\<rparr>,
      \<lparr>resolvedPaths = [''/lib/pkg/b.pyi'']\<rparr>] \<and>
   length (getImports (snd (parse example_parser example_options example_file))) = 3"
proof -
  have rc: "readContents example_parser example_file = (Some ''from ..pkg import b'', [])"
    by (simp add: readContents_def example_parser_fields example_file_value)
  have p: "parseSourceFile example_parser (fst (readContents example_parser example_file))
             (makeParseOptions example_options example_file)
             (snd (readContents example_parser example_file)) =
           Inr (\<lparr>parseTree = 0, tokens = [], lines = [\<lparr>start = 0, length_r = 18\<rparr>]\<rparr>, [])"
    by (simp add: rc example_parser_fields)
  have w: "postParseWalk example_parser
             (lines \<lparr>parseTree = 0, tokens = [], lines = [\<lparr>start = 0, length_r = 18\<rparr>]\<rparr>) []
             (parseTree \<lparr>parseTree = 0::nat, tokens = [],
                lines = [\<lparr>start = 0, length_r = 18\<rparr>]\<rparr>) =
           Inr (0, [example_import], [])"
    by (simp add: example_parser_fields)
  have t: "internalTestMode example_options \<longrightarrow> testWalk example_parser 0 = None"
    by (simp add: example_parser_fields)
  have b: "resolveImport example_parser (p_filePath example_file) example_options
           (findExecEnvironment example_options (p_filePath example_file))
           \<lparr>leadingDots = 0, nameParts = [''builtins''], importedSymbols = None\<rparr> =
         Inr \<lparr>resolvedPaths = [''/lib/builtins.pyi'']\<rparr>"
    by (simp add: example_parser_fields example_resolve_def)
  have ty: "resolveImport example_parser (p_filePath example_file) example_options
           (findExecEnvironment example_options (p_filePath example_file))
           \<lparr>leadingDots = 0, nameParts = [''typing''], importedSymbols = None\<rparr> =
         Inr \<lparr>resolvedPaths = [''/lib/typing.pyi'']\<rparr>"
    by (simp add: example_parser_fields example_resolve_def)
  have ex: "map (\<lambda>m. resolveImport example_parser (p_filePath example_file) example_options
                 (findExecEnvironment example_options (p_filePath example_file))
                 \<lparr>leadingDots = leadingDots m, nameParts = nameParts m,
                  importedSymbols = importedSymbols m\<rparr>) [example_import] =
         map Inr [\<lparr>resolvedPaths = [''/lib/pkg/b.pyi'']\<rparr>]"
    by (simp add: example_parser_fields example_resolve_def example_import_def)
  have path: "getFilePath example_file = ''/src/a.py''"
    by (simp add: getFilePath_def example_file_value)
  show ?thesis
    using getImports_after_parse [OF example_file_parse_required p w t b ty ex]
      example_file_parse_required
    by (simp add: path)
qed

subsection \<open>The order of the filters of \<open>getDiagnostics\<close>\<close>

lemma truthy_find_nonempty:
  assumes "[] \<notin> set xs"
  shows "truthy (find P xs) = (\<exists>p \<in> set xs. P p)"
  using assms by (induction xs) auto

text \<open>
  When no configured ignore path is the empty string, \<open>getDiagnostics\<close> is the
  four steps in order: the three buckets concatenated, the cycle diagnostics
  appended unless the mode is none, for a typeshed stub \<open>undefined\<close> with mode none
  and errors turned into warnings with mode warning, and last the empty list
  when the file path starts with an ignore path.
\<close>

lemma getDiagnostics_nonempty_ignore:
  assumes "[] \<notin> set (ignore options)"
  shows "getDiagnostics options prevDiagnosticVersion s =
     (if Some (p_diagnosticVersion s) = prevDiagnosticVersion then None
      else if p_isTypeshedStubFile s \<and> reportTypeshedErrors options = LevelNone then None
      else if \<exists>ignorePath \<in> set (ignore options). startsWith (p_filePath s) ignorePath
      then Some []
      else Some
        ((if p_isTypeshedStubFile s \<and> reportTypeshedErrors options = LevelWarning
          then map (\<lambda>diag. if category diag = Error
                            then new_Diagnostic Warning (message diag) (range_d diag)
                            else diag)
          else (\<lambda>diagList. diagList))
           (parseDiagnostics (p_analysisJob s) @
            semanticAnalysisDiagnostics (p_analysisJob s) @
            typeAnalysisFinalDiagnostics (p_analysisJob s) @
            (if reportImportCycles options = LevelNone then []
             else map (\<lambda>cirDep. new_Diagnostic
                         (if reportImportCycles options = LevelWarning then Warning else Error)
                         (''Cycle detected in import chain'' @ newline @
                          join (map (\<lambda>path. ''  '' @ path) (getPaths cirDep)) newline)
                         None)
                    (circularDependencies (p_analysisJob s))))))"
proof (cases "circularDependencies (p_analysisJob s)")
  case Nil
  then show ?thesis
    unfolding getDiagnostics_def Let_def truthy_find_nonempty[OF assms] by simp
next
  case (Cons d ds)
  then have "0 < length (circularDependencies (p_analysisJob s))" by simp
  then show ?thesis
    unfolding getDiagnostics_def Let_def truthy_find_nonempty[OF assms] by simp
qed

text \<open>
  C5. The last step fails for the empty ignore path: every file path starts with
  it, \<open>find\<close> returns it, and the empty string is falsy as the condition of the
  \<open>if\<close>, so the list is not cleared. Here the finalized example file, which is
  not a typeshed stub, is asked for its diagnostics with an ignore list that
  holds the empty string: the result is its one type error, not the empty list.
\<close>

theorem getDiagnostics_empty_ignore_path:
  "ignore example_ignore_options = [''''] \<and>
   startsWith (p_filePath example_finalized) '''' \<and>
   p_isTypeshedStubFile example_finalized = False \<and>
   getDiagnostics example_ignore_options None example_finalized =
     Some [new_Diagnostic Error ''x has no attribute y'' (Some ((0, 0), (0, 1)))] \<and>
   getDiagnostics example_ignore_options None example_finalized \<noteq> Some []"
  by (simp add: getDiagnostics_def example_ignore_options_def example_options_def
      example_finalized_value example_converged_value example_analyzed_value
      example_parsed_value startsWith_def Let_def new_Diagnostic_def)

end
